theory Spec2Isabelle
  imports Complex_Main "HOL-Library.AList"
begin

section \<open>Tracks, loop modes and the per-guild player state\<close>

text \<open>
  The dataclass \<open>Track\<close> of \<open>cogs/music_power.py\<close>. Python's unbounded \<open>int\<close> is
  \<open>int\<close>; \<open>Optional[str]\<close> is \<open>string option\<close>.
\<close>

record Track =
  title :: string
  webpage_url :: string
  stream_url :: string
  duration :: int
  requested_by :: int
  source :: string
  thumb :: "string option"
  uploader :: "string option"

text \<open>
  \<open>class LoopMode\<close> holds three integer constants; the field \<open>GuildState.loop\<close> is a
  plain Python \<open>int\<close> (the watcher tests it for truthiness), so it stays an \<open>int\<close> here.
\<close>

definition LoopMode_OFF :: int where "LoopMode_OFF = 0"
definition LoopMode_ONE :: int where "LoopMode_ONE = 1"
definition LoopMode_ALL :: int where "LoopMode_ALL = 2"

lemmas LoopMode_defs = LoopMode_OFF_def LoopMode_ONE_def LoopMode_ALL_def

text \<open>
  The dataclass \<open>GuildState\<close>. Two fields need a word.
  \<^item> \<open>volume\<close> and \<open>idle_since\<close> are Python floats. They are modelled as exact rationals:
    the code only stores \<open>percent / 100.0\<close> and clock readings in them and compares them,
    and rounding to the nearest double is monotone, so the order facts proved below carry over.
  \<^item> \<open>lock\<close> is a reference to an \<open>asyncio.Lock\<close> object. The field is the object's
    address; whether a lock is held is kept in the world (\<open>locked\<close> below). The dataclass
    default \<open>lock: asyncio.Lock = asyncio.Lock()\<close> is evaluated once, when the class body
    runs, and \<open>gs\<close> never passes a lock of its own: every \<open>GuildState\<close> the cog creates
    refers to that one object, address \<open>default_lock\<close>.
\<close>

record GuildState =
  queue :: "Track list"
  loop :: int
  volume :: rat
  filter_id :: "string option"
  last_text_channel_id :: "int option"
  idle_since :: rat
  lock :: nat
  now :: "Track option"
  autoplay :: bool
  radio_query :: "string option"

definition default_lock :: nat where "default_lock = 0"

text \<open>\<open>GuildState(queue=deque())\<close>: every other field takes its default.\<close>

definition new_GuildState :: GuildState where
  "new_GuildState =
     \<lparr>queue = [], loop = LoopMode_OFF, volume = 1, filter_id = None,
      last_text_channel_id = None, idle_since = 0, lock = default_lock, now = None,
      autoplay = False, radio_query = None\<rparr>"

text \<open>\<open>GuildState.clear\<close> (lines 103-109).\<close>

definition clear :: "GuildState \<Rightarrow> GuildState" where
  "clear st =
     st\<lparr>queue := [], loop := LoopMode_OFF, filter_id := None, now := None,
        autoplay := False, radio_query := None\<rparr>"

section \<open>Python helpers\<close>

text \<open>Truthiness of an \<open>Optional[str]\<close>: \<open>None\<close> and the empty string are false.\<close>

definition truthy :: "string option \<Rightarrow> bool" where
  "truthy s = (case s of None \<Rightarrow> False | Some v \<Rightarrow> v \<noteq> [])"

text \<open>\<open>int(x)\<close> on a float truncates towards zero.\<close>

definition py_int :: "rat \<Rightarrow> int" where
  "py_int r = (if 0 \<le> r then \<lfloor>r\<rfloor> else \<lceil>r\<rceil>)"

text \<open>The slice \<open>xs[:n]\<close>: a negative \<open>n\<close> counts from the end.\<close>

definition py_prefix :: "int \<Rightarrow> 'a list \<Rightarrow> 'a list" where
  "py_prefix n xs = (if 0 \<le> n then take (nat n) xs else take (length xs - nat (- n)) xs)"

text \<open>\<open>str(n)\<close> for an integer: its decimal digits, with a minus sign when negative.\<close>

fun str_nat :: "nat \<Rightarrow> string" where
  "str_nat n =
     (if n < 10 then [''0123456789'' ! n]
      else str_nat (n div 10) @ [''0123456789'' ! (n mod 10)])"

definition py_str :: "int \<Rightarrow> string" where
  "py_str i = (if i < 0 then CHR ''-'' # str_nat (nat (- i)) else str_nat (nat i))"

text \<open>
  \<open>list.pop(i)\<close> and \<open>list.insert(i, x)\<close> with Python's index rules: a negative index
  counts from the end, \<open>pop\<close> out of range raises \<open>IndexError\<close> (here \<open>None\<close>), and
  \<open>insert\<close> clamps its index to the list.
\<close>

definition py_pop :: "int \<Rightarrow> 'a list \<Rightarrow> ('a \<times> 'a list) option" where
  "py_pop i xs =
     (let n = int (length xs); j = (if i < 0 then n + i else i)
      in if 0 \<le> j \<and> j < n then Some (xs ! nat j, take (nat j) xs @ drop (Suc (nat j)) xs)
         else None)"

definition py_insert :: "int \<Rightarrow> 'a \<Rightarrow> 'a list \<Rightarrow> 'a list" where
  "py_insert i x xs =
     (let n = int (length xs); j = (if i < 0 then max 0 (n + i) else min n i)
      in take (nat j) xs @ x # drop (nat j) xs)"

section \<open>The published state file\<close>

text \<open>
  The JSON values the cog writes. A Python \<open>dict\<close> keeps insertion order and assigning to
  an existing key keeps the key's place, which is what \<open>AList.update\<close> does on an
  association list.
\<close>

datatype json = JNull | JBool bool | JInt int | JStr string | JArr "json list"
  | JObj "(string \<times> json) list"

type_synonym payload = "(string \<times> json) list"

type_synonym store = "(string \<times> payload) list"

text \<open>\<open>d.update(other)\<close> for dictionaries.\<close>

definition dict_update :: "('k \<times> 'v) list \<Rightarrow> ('k \<times> 'v) list \<Rightarrow> ('k \<times> 'v) list" where
  "dict_update d other = foldl (\<lambda>acc kv. AList.update (fst kv) (snd kv) acc) d other"

definition json_opt_str :: "string option \<Rightarrow> json" where
  "json_opt_str s = (case s of None \<Rightarrow> JNull | Some v \<Rightarrow> JStr v)"

text \<open>
  \<open>_snapshot_state\<close> (lines 160-184). The environment variable
  \<open>LC_QUEUE_EXPORT_LIMIT\<close> is the parameter \<open>limit\<close> and the reading of \<open>time.time()\<close>
  is the parameter \<open>t\<close>. The published volume \<open>int(st.volume * 100)\<close> is computed on
  exact rationals here; the float product can fall just below an integer (0.29 * 100),
  where the code publishes one less. No statement below reads that entry of a snapshot.
\<close>

definition snapshot_state :: "int \<Rightarrow> rat \<Rightarrow> GuildState \<Rightarrow> payload" where
  "snapshot_state limit t st =
     (let q_preview =
            map (\<lambda>tr. JObj [(''title'', JStr (title tr)), (''web'', JStr (webpage_url tr)),
                             (''dur'', JInt (duration tr))])
              (py_prefix limit (queue st));
          payload =
            [(''status'', JStr (if now st = None then ''idle'' else ''playing'')),
             (''loop'', JBool (loop st = LoopMode_ONE \<or> loop st = LoopMode_ALL)),
             (''volume'', JInt (py_int (volume st * 100))),
             (''filter'', JStr (case filter_id st of None \<Rightarrow> ''off''
                                | Some f \<Rightarrow> if f = [] then ''off'' else f)),
             (''queue_len'', JInt (int (length (queue st)))),
             (''queue'', JArr q_preview)]
      in case now st of
           None \<Rightarrow> payload
         | Some cur \<Rightarrow>
             dict_update payload
               [(''title'', JStr (title cur)), (''web'', JStr (webpage_url cur)),
                (''duration'', JInt (duration cur)), (''thumb'', json_opt_str (thumb cur)),
                (''started_at'', JInt (py_int t))])"

section \<open>The world outside one session\<close>

text \<open>
  What the cog says to the chat and voice transport is kept as a trace of calls. The
  message texts are not modelled, only which message was sent and the values it carries.
  What the transport does with a call it accepts is outside the model.
\<close>

datatype message =
    PlaybackError string
  | FetchFailed string
  | Starting string nat
  | Enqueued string nat
  | NowEmbed
  | NothingToPause
  | Paused
  | Stopped
  | NotInVoice
  | Left

datatype call =
    VcPlay int Track
  | VcStop int
  | VcPause int
  | VcDisconnect int
  | Send message

text \<open>
  The world the cog's methods read and write:
  \<^item> \<open>states\<close> is \<open>self.states\<close>, a dictionary in insertion order;
  \<^item> \<open>locked\<close> is the set of \<open>asyncio.Lock\<close> objects that are held;
  \<^item> \<open>state_file\<close> is the JSON document in \<open>STATE_FILE\<close>, \<open>None\<close> when the file is
    missing or unreadable; writes are taken to succeed;
  \<^item> \<open>calls\<close> is the trace of calls to the transport.
\<close>

record world =
  states :: "(int \<times> GuildState) list"
  locked :: "nat set"
  state_file :: "store option"
  calls :: "call list"

text \<open>
  What a method observes of the transport and of the backend while it runs. A voice
  client is seen through \<open>is_playing()\<close>, \<open>is_paused()\<close> and
  \<open>isinstance(vc, wavelink.Player)\<close>.
  \<^item> \<open>lavalink\<close> is \<open>BACKEND == "lavalink" and WAVLINK_AVAILABLE\<close>;
  \<^item> \<open>export_limit\<close> is \<open>int(os.getenv("LC_QUEUE_EXPORT_LIMIT", "100"))\<close>;
  \<^item> \<open>get_guild\<close> tells whether \<open>bot.get_guild(gid)\<close> finds the guild;
  \<^item> \<open>voice_client\<close> is \<open>guild.voice_client\<close>;
  \<^item> \<open>play_error\<close> is the exception, if any, that obtaining or starting the source of a
    track raises (\<open>_play_local\<close>, \<open>_play_lavalink\<close>), as its text;
  \<^item> \<open>node_finds\<close> tells whether the Lavalink node returns a result for the track;
  \<^item> \<open>search\<close> is \<open>backend.search\<close>: \<open>Inl\<close> is the exception it raises;
  \<^item> \<open>choice\<close> stands for \<open>random.choice\<close>: the index it draws, taken modulo the length;
  \<^item> \<open>connected\<close> is the result of \<open>ensure_connected\<close>;
  \<^item> \<open>strict_reply\<close> tells which kind of interaction the method was given: true for a
    \<open>discord.Interaction\<close>, whose \<open>send_message\<close> and \<open>followup.send\<close> take the keywords
    of their signature only, false for the watcher's \<open>_Shim\<close>, whose send methods take any
    keyword.
\<close>

record voice =
  is_playing :: bool
  is_paused :: bool
  is_player :: bool

record env =
  lavalink :: bool
  export_limit :: int
  get_guild :: "int \<Rightarrow> bool"
  voice_client :: "int \<Rightarrow> voice option"
  play_error :: "Track \<Rightarrow> string option"
  node_finds :: "Track \<Rightarrow> bool"
  search :: "string \<Rightarrow> string + Track list"
  choice :: "Track list \<Rightarrow> nat"
  connected :: "int \<Rightarrow> voice option"
  strict_reply :: bool

text \<open>The fields of a \<open>discord.Interaction\<close> (or of the watcher's \<open>_Shim\<close>) the cog reads.\<close>

record interaction =
  guild :: "int option"
  user_id :: int
  channel_id :: "int option"

text \<open>
  How a coroutine ends. \<open>Returned\<close>: it ran to its end. \<open>Raised\<close>: an exception left
  it. \<open>Waits\<close>: it does not end, because it, or the coroutine it awaits, is suspended in
  \<open>async with st.lock\<close> on a lock that is held. The model follows one chain of calls and
  has no second task that could release a lock: where a statement below says that a call
  waits, the lock is held by a caller of that very call, or by a chain of calls that
  waits itself, and neither ever releases it. Each outcome carries the world as it is at
  that moment.
\<close>

datatype exn = AttributeError | IndexError | TypeError

datatype 'a outcome = Returned 'a | Waits 'a | Raised exn 'a

section \<open>Session store and state publisher\<close>

text \<open>\<open>MusicPower.gs\<close> (lines 374-377): the session of a guild, created on first use.\<close>

definition gs :: "int \<Rightarrow> world \<Rightarrow> GuildState \<times> world" where
  "gs guild_id w =
     (case map_of (states w) guild_id of
        None \<Rightarrow> (new_GuildState, w\<lparr>states := states w @ [(guild_id, new_GuildState)]\<rparr>)
      | Some st \<Rightarrow> (st, w))"

text \<open>
  Python mutates the session object in place. Here a method works on a copy and writes
  it back with \<open>put\<close> after each assignment.
\<close>

definition put :: "int \<Rightarrow> GuildState \<Rightarrow> world \<Rightarrow> world" where
  "put guild_id st w = w\<lparr>states := AList.update guild_id st (states w)\<rparr>"

text \<open>\<open>_load_json_state\<close>, \<open>_save_json_state\<close> and \<open>_update_state\<close> (lines 142-197).\<close>

definition load_json_state :: "world \<Rightarrow> store" where
  "load_json_state w = (case state_file w of None \<Rightarrow> [] | Some d \<Rightarrow> d)"

definition save_json_state :: "store \<Rightarrow> world \<Rightarrow> world" where
  "save_json_state state w = w\<lparr>state_file := Some state\<rparr>"

definition update_state :: "int \<Rightarrow> payload option \<Rightarrow> world \<Rightarrow> world" where
  "update_state guild_id payload w =
     (let state = load_json_state w
      in save_json_state
           (case payload of
              None \<Rightarrow> AList.delete (py_str guild_id) state
            | Some p \<Rightarrow> AList.update (py_str guild_id) p state) w)"

definition say :: "call \<Rightarrow> world \<Rightarrow> world" where
  "say c w = w\<lparr>calls := calls w @ [c]\<rparr>"

text \<open>Entering and leaving \<open>async with st.lock\<close>.\<close>

definition acquire :: "nat \<Rightarrow> world \<Rightarrow> world" where
  "acquire l w = w\<lparr>locked := insert l (locked w)\<rparr>"

definition release :: "nat \<Rightarrow> world \<Rightarrow> world" where
  "release l w = w\<lparr>locked := locked w - {l}\<rparr>"

section \<open>The playback engine\<close>

text \<open>
  \<open>MusicPower.play_next\<close> (lines 517-567); \<open>t\<close> is the reading of \<open>time.time()\<close>. The
  Lavalink reconnection at its top (lines 523-525) belongs to the transport: it only
  rebinds the local \<open>vc\<close>, which the Lavalink branch never reads, and is left out. The
  report to the caller is best effort (its own exception is swallowed) and is in the
  trace. The retry after a failed start is the call in the last line of the \<open>except\<close>
  block, which stands inside \<open>async with st.lock\<close>; the lock is released where the block
  is left, by \<open>return\<close> or at its end.
\<close>

function play_next :: "env \<Rightarrow> rat \<Rightarrow> interaction \<Rightarrow> bool \<Rightarrow> world \<Rightarrow> world outcome" where
  "play_next e t itx started_by_skip w =
     (case guild itx of
        None \<Rightarrow> Returned w
      | Some gid \<Rightarrow>
          (let vc = voice_client e gid;
               st = fst (gs gid w);
               w = snd (gs gid w)
           in if lock st \<in> locked w then Waits w
              else
                (let w = acquire (lock st) w;
                     popped =
                       (case queue st of
                          [] \<Rightarrow> None
                        | tr # rest \<Rightarrow>
                            Some (tr, st\<lparr>queue :=
                              (case now st of
                                 None \<Rightarrow> rest
                               | Some cur \<Rightarrow>
                                   if loop st = LoopMode_ALL \<and> \<not> started_by_skip
                                   then rest @ [cur] else rest)\<rparr>));
                     chosen =
                       (case now st of
                          None \<Rightarrow> popped
                        | Some cur \<Rightarrow>
                            if loop st = LoopMode_ONE \<and> \<not> started_by_skip
                            then Some (cur, st) else popped)
                 in case chosen of
                      None \<Rightarrow>
                        (let st = st\<lparr>now := None\<rparr>;
                             w = update_state gid
                                   (Some (snapshot_state (export_limit e) t st)) (put gid st w);
                             st = st\<lparr>idle_since := t\<rparr>
                         in Returned (release (lock st) (put gid st w)))
                    | Some (track, st) \<Rightarrow>
                        (let st = st\<lparr>now := Some track\<rparr>;
                             w = put gid st w;
                             payload =
                               dict_update (snapshot_state (export_limit e) t st)
                                 [(''title'', JStr (title track)),
                                  (''web'', JStr (webpage_url track)),
                                  (''duration'', JInt (duration track)),
                                  (''thumb'', json_opt_str (thumb track)),
                                  (''started_at'', JInt (py_int t)),
                                  (''status'', JStr ''playing'')];
                             w = update_state gid (Some payload) w
                         in if \<not> lavalink e \<and> vc = None then Returned (release (lock st) w)
                            else
                              (case play_error e track of
                                 None \<Rightarrow>
                                   Returned (release (lock st)
                                     (if lavalink e \<and> \<not> node_finds e track then w
                                      else say (VcPlay gid track) w))
                               | Some err \<Rightarrow>
                                   (case play_next e t itx False
                                           (say (Send (PlaybackError err)) w) of
                                      Returned w' \<Rightarrow> Returned (release (lock st) w')
                                    | Raised x w' \<Rightarrow> Raised x (release (lock st) w')
                                    | Waits w' \<Rightarrow> Waits w'))))))"
  by pat_completeness auto

termination play_next
  apply (relation "measure (\<lambda>(e, t, itx, skip, w).
      case guild itx of None \<Rightarrow> 0
      | Some gid \<Rightarrow> if lock (fst (gs gid w)) \<in> locked w then 0 else 1)")
   apply simp
  apply (auto simp add: gs_def put_def update_state_def save_json_state_def say_def
      acquire_def Let_def update_conv' split: option.splits list.splits if_splits)
  done

declare play_next.simps [simp del]

text \<open>
  \<open>MusicPower._after_finished\<close> (lines 598-610), the completion callback of a track
  that ended by itself. \<open>inter.guild.id\<close> raises when the interaction has no guild.
\<close>

definition after_finished :: "env \<Rightarrow> rat \<Rightarrow> interaction \<Rightarrow> world \<Rightarrow> world outcome" where
  "after_finished e t itx w =
     (case guild itx of
        None \<Rightarrow> Raised AttributeError w
      | Some gid \<Rightarrow>
          (let st = fst (gs gid w);
               w = snd (gs gid w);
               w = (if queue st = [] \<and> (autoplay st \<or> truthy (radio_query st))
                    then
                      (let seed = (if truthy (radio_query st) then radio_query st
                                   else map_option title (now st))
                       in case seed of
                            None \<Rightarrow> w
                          | Some s \<Rightarrow>
                              if s = [] then w
                              else
                                (case search e (''ytsearch10:'' @ s @ '' official audio'') of
                                   Inl err \<Rightarrow> w
                                 | Inr candidates \<Rightarrow>
                                     if candidates = [] then w
                                     else put gid
                                       (st\<lparr>queue := queue st @
                                          [candidates ! (choice e candidates mod length candidates)]\<rparr>)
                                       w))
                    else w)
           in play_next e t itx False w))"

text \<open>
  A run of tracks that each end by themselves: one callback per clock reading, as long as
  the callbacks return.
\<close>

fun completions :: "env \<Rightarrow> rat list \<Rightarrow> interaction \<Rightarrow> world \<Rightarrow> world outcome" where
  "completions e [] itx w = Returned w"
| "completions e (t # ts) itx w =
     (case after_finished e t itx w of
        Returned w' \<Rightarrow> completions e ts itx w'
      | Waits w' \<Rightarrow> Waits w'
      | Raised x w' \<Rightarrow> Raised x w')"

section \<open>Commands\<close>

text \<open>
  Most replies of the commands pass the keyword \<open>ephermal=True\<close>. No send method of
  discord.py has a parameter of that name, so on a \<open>discord.Interaction\<close> the call raises
  \<open>TypeError\<close> before anything is sent; on the watcher's \<open>_Shim\<close> it is accepted. \<open>reply\<close>
  is such a call. A reply that is spelled \<open>ephemeral=True\<close> is sent on both.
\<close>

definition reply :: "env \<Rightarrow> message \<Rightarrow> world \<Rightarrow> world outcome" where
  "reply e m w = (if strict_reply e then Raised TypeError w else Returned (say (Send m) w))"

text \<open>
  \<open>MusicPower.play\<close> (lines 637-669). \<open>ensure_connected\<close> belongs to the transport; its
  result is \<open>connected e gid\<close> and its own replies are not in the trace. With an empty
  result list \<open>first\<close> is \<open>None\<close> and both branches go on to read \<open>first.title\<close>, before
  they reply. The embed that follows the reply is sent to the channel, best effort.
\<close>

definition play :: "env \<Rightarrow> rat \<Rightarrow> interaction \<Rightarrow> string \<Rightarrow> world \<Rightarrow> world outcome" where
  "play e t itx query w =
     (case guild itx of
        None \<Rightarrow> Returned w
      | Some gid \<Rightarrow>
          (case connected e gid of
             None \<Rightarrow> Returned w
           | Some vc \<Rightarrow>
               (let st = fst (gs gid w);
                    w = snd (gs gid w);
                    st = st\<lparr>last_text_channel_id := channel_id itx\<rparr>;
                    w = put gid st w
                in case search e query of
                     Inl err \<Rightarrow> reply e (FetchFailed err) w
                   | Inr found \<Rightarrow>
                       (let tracks = map (\<lambda>tr. tr\<lparr>requested_by := user_id itx\<rparr>) found;
                            st = st\<lparr>queue := queue st @ tracks\<rparr>;
                            w = put gid st w;
                            first = (case tracks of [] \<Rightarrow> None | tr # rest \<Rightarrow> Some tr);
                            embed = (\<lambda>r. case r of
                                       Returned w \<Rightarrow> Returned (say (Send NowEmbed) w)
                                     | Waits w \<Rightarrow> Waits w
                                     | Raised x w \<Rightarrow> Raised x w)
                        in if \<not> is_playing vc \<and> \<not> is_paused vc
                           then
                             (case play_next e t itx False w of
                                Returned w \<Rightarrow>
                                  (case first of
                                     None \<Rightarrow> Raised AttributeError w
                                   | Some f \<Rightarrow>
                                       embed (reply e
                                         (Starting (title f) (length tracks - 1)) w))
                              | Waits w \<Rightarrow> Waits w
                              | Raised x w \<Rightarrow> Raised x w)
                           else
                             (case first of
                                None \<Rightarrow> Raised AttributeError w
                              | Some f \<Rightarrow>
                                  embed (reply e
                                    (Enqueued (title f) (length tracks - 1)) w))))))"

text \<open>\<open>MusicPower.pause\<close> (lines 671-682).\<close>

definition pause :: "env \<Rightarrow> interaction \<Rightarrow> world \<Rightarrow> world outcome" where
  "pause e itx w =
     (case guild itx of
        None \<Rightarrow> reply e NothingToPause w
      | Some gid \<Rightarrow>
          (case voice_client e gid of
             None \<Rightarrow> reply e NothingToPause w
           | Some vc \<Rightarrow>
               (let paused =
                      reply e Paused
                        (update_state gid (Some [(''status'', JStr ''paused'')])
                           (say (VcPause gid) w))
                in if lavalink e \<and> is_player vc then paused
                   else if \<not> is_playing vc then reply e NothingToPause w
                   else paused)))"

text \<open>
  \<open>MusicPower.stop\<close> (lines 711-721) and \<open>MusicPower.leave\<close> (lines 622-635). The last
  reply of \<open>leave\<close> is spelled correctly.
\<close>

definition stop :: "env \<Rightarrow> interaction \<Rightarrow> world \<Rightarrow> world outcome" where
  "stop e itx w =
     (case guild itx of
        None \<Rightarrow> Raised AttributeError w
      | Some gid \<Rightarrow>
          (let st = fst (gs gid w);
               w = snd (gs gid w);
               w = put gid (clear st) w;
               w = (case voice_client e gid of
                      None \<Rightarrow> w
                    | Some vc \<Rightarrow>
                        if lavalink e \<and> is_player vc then say (VcStop gid) w
                        else if is_playing vc \<or> is_paused vc then say (VcStop gid) w
                        else w)
           in reply e Stopped (update_state gid None w)))"

definition leave :: "env \<Rightarrow> interaction \<Rightarrow> world \<Rightarrow> world outcome" where
  "leave e itx w =
     (case guild itx of
        None \<Rightarrow> reply e NotInVoice w
      | Some gid \<Rightarrow>
          (case voice_client e gid of
             None \<Rightarrow> reply e NotInVoice w
           | Some vc \<Rightarrow>
               (let w = say (VcDisconnect gid) w;
                    st = fst (gs gid w);
                    w = snd (gs gid w);
                    w = put gid (clear st) w
                in Returned (say (Send Left) (update_state gid None w)))))"

text \<open>
  \<open>MusicPower.remove\<close> (lines 769-779), \<open>MusicPower.move\<close> (lines 781-793) and
  \<open>MusicPower.volume\<close> (lines 834-839). Only the command framework calls these three (the
  watcher has branches of its own for the same actions), so the interaction is a
  \<open>discord.Interaction\<close> and each of their replies, all spelled \<open>ephermal=True\<close>, raises
  \<open>TypeError\<close>: at lines 773 and 786 before anything has changed, at lines 779, 793 and
  839 after the session has been changed and published. The clock reading \<open>t\<close> and
  \<open>export_limit e\<close> go into the published snapshot. All three read \<open>inter.guild.id\<close>,
  which raises when the interaction has no guild.
\<close>

definition remove :: "env \<Rightarrow> rat \<Rightarrow> interaction \<Rightarrow> int \<Rightarrow> world \<Rightarrow> world outcome" where
  "remove e t itx index w =
     (case guild itx of
        None \<Rightarrow> Raised AttributeError w
      | Some gid \<Rightarrow>
          (let st = fst (gs gid w);
               w = snd (gs gid w)
           in if index < 1 \<or> index > int (length (queue st))
              then Raised TypeError w
              else
                (case py_pop (index - 1) (queue st) of
                   None \<Rightarrow> Raised IndexError w
                 | Some (tr, q) \<Rightarrow>
                     (let st = st\<lparr>queue := q\<rparr>;
                          w = put gid st w;
                          w = update_state gid
                                (Some (snapshot_state (export_limit e) t st)) w
                      in Raised TypeError w))))"

definition move ::
    "env \<Rightarrow> rat \<Rightarrow> interaction \<Rightarrow> int \<Rightarrow> int \<Rightarrow> world \<Rightarrow> world outcome" where
  "move e t itx src_index dst_index w =
     (case guild itx of
        None \<Rightarrow> Raised AttributeError w
      | Some gid \<Rightarrow>
          (let st = fst (gs gid w);
               w = snd (gs gid w);
               n = int (length (queue st))
           in if src_index < 1 \<or> dst_index < 1 \<or> src_index > n \<or> dst_index > n
              then Raised TypeError w
              else
                (case py_pop (src_index - 1) (queue st) of
                   None \<Rightarrow> Raised IndexError w
                 | Some (tr, q) \<Rightarrow>
                     (let q = py_insert (dst_index - 1) tr q;
                          st = st\<lparr>queue := q\<rparr>;
                          w = put gid st w;
                          w = update_state gid
                                (Some (snapshot_state (export_limit e) t st)) w
                      in Raised TypeError w))))"

text \<open>
  The parameter type \<open>app_commands.Range[int, 0, 200]\<close> of \<open>volume\<close> is checked by the
  command framework before the body runs; the body itself stores what it is given.
\<close>

definition volume_cmd :: "interaction \<Rightarrow> int \<Rightarrow> world \<Rightarrow> world outcome" where
  "volume_cmd itx percent w =
     (case guild itx of
        None \<Rightarrow> Raised AttributeError w
      | Some gid \<Rightarrow>
          (let st = fst (gs gid w);
               w = snd (gs gid w);
               w = put gid (st\<lparr>volume := of_int percent / 100\<rparr>) w;
               w = update_state gid (Some [(''volume'', JInt percent)]) w
           in Raised TypeError w))"

section \<open>The control channel watcher\<close>

text \<open>
  The command log \<open>CONTROL_FILE\<close> is a text of ASCII characters, \<open>None\<close> when the file
  does not exist; an offset counts characters. \<open>readlines\<close> is \<open>f.readlines()\<close> on the
  rest of the file: every line keeps its line feed. Lines end in a line feed only, as the
  producers write them; a carriage return, which Python's text mode would also take for
  a line end, is not modelled.
\<close>

fun readlines :: "string \<Rightarrow> string list" where
  "readlines [] = []"
| "readlines (c # cs) =
     (if c = CHR 0x0A then [c] # readlines cs
      else (case readlines cs of [] \<Rightarrow> [[c]] | l # ls \<Rightarrow> (c # l) # ls))"

text \<open>\<open>str.strip()\<close> on ASCII text.\<close>

definition is_space :: "char \<Rightarrow> bool" where
  "is_space c = (c \<in> {CHR 0x09, CHR 0x0A, CHR 0x0B, CHR 0x0C, CHR 0x0D,
                        CHR 0x1C, CHR 0x1D, CHR 0x1E, CHR 0x1F, CHR '' ''})"

definition strip :: "string \<Rightarrow> string" where
  "strip s = rev (dropWhile is_space (rev (dropWhile is_space s)))"

text \<open>
  One pass of the loop of \<open>_control_queue_watcher\<close> up to the dispatch (lines 980-993):
  \<open>f.seek(pos)\<close>, \<open>lines = f.readlines()\<close>, \<open>pos = f.tell()\<close>, \<open>f.truncate(0)\<close>. The
  local variable \<open>pos\<close> lives across passes, so it is an argument and a result. After a
  read that starts at or before the end of the file \<open>f.tell()\<close> is the end of the file;
  after a seek beyond the end nothing is read and \<open>f.tell()\<close> is the offset sought. The
  result holds the stripped, non-empty lines, which the dispatch then parses.
\<close>

definition watcher_cycle :: "nat \<Rightarrow> string option \<Rightarrow> string list \<times> nat \<times> string option" where
  "watcher_cycle pos file =
     (case file of
        None \<Rightarrow> ([], pos, None)
      | Some content \<Rightarrow>
          (let lines = readlines (drop pos content);
               pos = (if pos \<le> length content then length content else pos)
           in (filter (\<lambda>l. l \<noteq> []) (map strip lines), pos, Some [])))"

text \<open>
  The producer's side, \<open>write_control\<close> of \<open>lc_admin_app.py\<close> (and \<open>_append_control\<close>):
  the file is opened in append mode and one line is written.
\<close>

definition append_control :: "string \<Rightarrow> string option \<Rightarrow> string option" where
  "append_control line file =
     Some ((case file of None \<Rightarrow> [] | Some content \<Rightarrow> content) @ line @ [CHR 0x0A])"

text \<open>
  Three branches of the dispatch, each after \<open>st = self.gs(gid)\<close>: \<open>volume\<close>
  (lines 1061-1067), \<open>queue_remove\<close> (lines 1068-1074) and \<open>queue_move\<close>
  (lines 1075-1083). A payload field is \<open>None\<close> when the key is absent, and the
  defaults of \<open>payload.get\<close> apply.
\<close>

definition watcher_volume :: "int \<Rightarrow> int option \<Rightarrow> world \<Rightarrow> world" where
  "watcher_volume gid percent w =
     (let st = fst (gs gid w);
          w = snd (gs gid w);
          pct = (case percent of None \<Rightarrow> 100 | Some p \<Rightarrow> p);
          w = put gid (st\<lparr>volume := of_int (max 0 (min 200 pct)) / 100\<rparr>) w
      in update_state gid (Some [(''volume'', JInt pct)]) w)"

definition watcher_queue_remove :: "env \<Rightarrow> rat \<Rightarrow> int \<Rightarrow> int option \<Rightarrow> world \<Rightarrow> world outcome" where
  "watcher_queue_remove e t gid index w =
     (let st = fst (gs gid w);
          w = snd (gs gid w);
          idx = (case index of None \<Rightarrow> 0 | Some i \<Rightarrow> i)
      in if 1 \<le> idx \<and> idx \<le> int (length (queue st))
         then
           (case py_pop (idx - 1) (queue st) of
              None \<Rightarrow> Raised IndexError w
            | Some (tr, q) \<Rightarrow>
                (let st = st\<lparr>queue := q\<rparr>;
                     w = put gid st w
                 in Returned
                      (update_state gid (Some (snapshot_state (export_limit e) t st)) w)))
         else Returned w)"

definition watcher_queue_move ::
    "env \<Rightarrow> rat \<Rightarrow> int \<Rightarrow> int option \<Rightarrow> int option \<Rightarrow> world \<Rightarrow> world outcome" where
  "watcher_queue_move e t gid src_index dst_index w =
     (let st = fst (gs gid w);
          w = snd (gs gid w);
          src = (case src_index of None \<Rightarrow> 0 | Some i \<Rightarrow> i);
          dst = (case dst_index of None \<Rightarrow> 0 | Some i \<Rightarrow> i);
          n = int (length (queue st))
      in if 1 \<le> src \<and> src \<le> n \<and> 1 \<le> dst \<and> dst \<le> n
         then
           (case py_pop (src - 1) (queue st) of
              None \<Rightarrow> Raised IndexError w
            | Some (tr, q) \<Rightarrow>
                (let q = py_insert (dst - 1) tr q;
                     st = st\<lparr>queue := q\<rparr>;
                     w = put gid st w
                 in Returned
                      (update_state gid (Some (snapshot_state (export_limit e) t st)) w)))
         else Returned w)"

section \<open>The idle reaper\<close>

text \<open>
  The body of the \<open>for\<close> loop of \<open>_idle_disconnect\<close> (lines 1144-1166) for one entry of
  \<open>self.states\<close>. \<open>t1\<close> and \<open>t2\<close> are the two readings of \<open>time.time()\<close>, in the order
  the code takes them. \<open>vc.disconnect\<close> may raise; the exception is swallowed and the
  call is in the trace either way.
\<close>

definition idle_check :: "env \<Rightarrow> rat \<Rightarrow> rat \<Rightarrow> int \<Rightarrow> world \<Rightarrow> world" where
  "idle_check e t1 t2 gid w =
     (case map_of (states w) gid of
        None \<Rightarrow> w
      | Some st \<Rightarrow>
          if \<not> get_guild e gid then w
          else
            (case voice_client e gid of
               None \<Rightarrow> put gid (st\<lparr>idle_since := 0\<rparr>) w
             | Some vc \<Rightarrow>
                 if is_playing vc then put gid (st\<lparr>idle_since := 0\<rparr>) w
                 else
                   (let st = (if idle_since st = 0 then st\<lparr>idle_since := t1\<rparr> else st);
                        w = put gid st w
                    in if t2 - idle_since st > 120 \<and> queue st = []
                       then
                         (let w = say (VcDisconnect gid) w;
                              w = update_state gid None w;
                              st = clear st;
                              st = st\<lparr>idle_since := 0\<rparr>
                          in put gid st w)
                       else w)))"

text \<open>
  The visits that successive passes of the loop pay to one session. Each visit has its
  own observation of the transport and its own two clock readings.
\<close>

fun reaper_visits :: "(env \<times> rat \<times> rat) list \<Rightarrow> int \<Rightarrow> world \<Rightarrow> world" where
  "reaper_visits [] gid w = w"
| "reaper_visits ((e, t1, t2) # rs) gid w = reaper_visits rs gid (idle_check e t1 t2 gid w)"

text \<open>One pass over \<open>list(self.states.items())\<close>; \<open>clock gid\<close> gives the two readings.\<close>

definition idle_disconnect :: "env \<Rightarrow> (int \<Rightarrow> rat \<times> rat) \<Rightarrow> world \<Rightarrow> world" where
  "idle_disconnect e clock w =
     foldl (\<lambda>w gid. idle_check e (fst (clock gid)) (snd (clock gid)) gid w) w
       (map fst (states w))"

section \<open>Vocabulary of the statements\<close>

text \<open>The session of a guild, if the store has one, and the entry published for it.\<close>

definition session :: "int \<Rightarrow> world \<Rightarrow> GuildState option" where
  "session gid w = map_of (states w) gid"

definition published :: "int \<Rightarrow> world \<Rightarrow> payload option" where
  "published gid w = map_of (load_json_state w) (py_str gid)"

text \<open>The world an outcome carries, and which kind of outcome it is.\<close>

fun world_of :: "'a outcome \<Rightarrow> 'a" where
  "world_of (Returned w) = w"
| "world_of (Waits w) = w"
| "world_of (Raised x w) = w"

fun returned :: "'a outcome \<Rightarrow> bool" where
  "returned (Returned w) = True"
| "returned (Waits w) = False"
| "returned (Raised x w) = False"

fun waits :: "'a outcome \<Rightarrow> bool" where
  "waits (Returned w) = False"
| "waits (Waits w) = True"
| "waits (Raised x w) = False"

fun raised :: "'a outcome \<Rightarrow> exn option" where
  "raised (Returned w) = None"
| "raised (Waits w) = None"
| "raised (Raised x w) = Some x"

text \<open>A list without its element at position \<open>n\<close>, and with \<open>x\<close> put at position \<open>n\<close>.\<close>

definition delete_at :: "nat \<Rightarrow> 'a list \<Rightarrow> 'a list" where
  "delete_at n xs = take n xs @ drop (Suc n) xs"

definition insert_at :: "nat \<Rightarrow> 'a \<Rightarrow> 'a list \<Rightarrow> 'a list" where
  "insert_at n x xs = take n xs @ x # drop n xs"

text \<open>
  The condition under which the reaper evicts a session: the guild is known, it has a
  voice client that is not playing, the time since the idle stamp (taken now, at \<open>t1\<close>,
  when the session had none) is more than 120 seconds at \<open>t2\<close>, and the queue is empty.
\<close>

definition evicts :: "env \<Rightarrow> rat \<Rightarrow> rat \<Rightarrow> int \<Rightarrow> GuildState \<Rightarrow> bool" where
  "evicts e t1 t2 gid st =
     (get_guild e gid \<and>
      (case voice_client e gid of None \<Rightarrow> False | Some vc \<Rightarrow> \<not> is_playing vc) \<and>
      120 < t2 - (if idle_since st = 0 then t1 else idle_since st) \<and>
      queue st = [])"

text \<open>
  Whether a source that is obtained without an exception is handed to a player: on the
  local backend the guild needs a voice client (line 559), on Lavalink the node has to
  find the track (line 595). \<open>plays\<close>: the source is obtained and handed over, that is,
  \<open>vc.play\<close> or \<open>player.play\<close> is called with it.
\<close>

definition reaches_player :: "env \<Rightarrow> int \<Rightarrow> Track \<Rightarrow> bool" where
  "reaches_player e gid tr =
     (if lavalink e then node_finds e tr else voice_client e gid \<noteq> None)"

definition plays :: "env \<Rightarrow> int \<Rightarrow> Track \<Rightarrow> bool" where
  "plays e gid tr = (play_error e tr = None \<and> reaches_player e gid tr)"

text \<open>
  The idle stamp a visit of the reaper leaves on a session it does not evict (lines
  1153-1156 and 1165-1166): untouched when the guild is unknown, zero when there is no
  voice client or it is playing, the reading \<open>t1\<close> when the session had no stamp, and the
  old stamp otherwise. \<open>quiet\<close>: the guild is known and has a voice client that is not
  playing.
\<close>

definition stamp :: "env \<Rightarrow> rat \<Rightarrow> int \<Rightarrow> GuildState \<Rightarrow> rat" where
  "stamp e t1 gid st =
     (if \<not> get_guild e gid then idle_since st
      else case voice_client e gid of
             None \<Rightarrow> 0
           | Some vc \<Rightarrow>
               if is_playing vc then 0
               else if idle_since st = 0 then t1 else idle_since st)"

definition quiet :: "env \<Rightarrow> int \<Rightarrow> bool" where
  "quiet e gid =
     (get_guild e gid \<and>
      (case voice_client e gid of None \<Rightarrow> False | Some vc \<Rightarrow> \<not> is_playing vc))"

text \<open>
  What a move does to the positions: \<open>q'\<close> is as long as \<open>q\<close>, holds at position \<open>j\<close>
  the element \<open>q\<close> holds at position \<open>i\<close>, and without it is \<open>q\<close> without that element.
\<close>

definition moved :: "nat \<Rightarrow> nat \<Rightarrow> 'a list \<Rightarrow> 'a list \<Rightarrow> bool" where
  "moved i j q q' =
     (length q' = length q \<and> q' ! j = q ! i \<and> delete_at j q' = delete_at i q)"

subsection \<open>Concrete inputs\<close>

definition mk_track :: "string \<Rightarrow> Track" where
  "mk_track name =
     \<lparr>title = name, webpage_url = ''https://example.org/'' @ name,
      stream_url = ''https://example.org/'' @ name, duration = 180, requested_by = 0,
      source = ''yt'', thumb = None, uploader = None\<rparr>"

definition track_A :: Track where "track_A = mk_track ''A''"
definition track_B :: Track where "track_B = mk_track ''B''"
definition track_C :: Track where "track_C = mk_track ''C''"

definition silent :: voice where
  "silent = \<lparr>is_playing = False, is_paused = False, is_player = False\<rparr>"

definition streaming :: voice where
  "streaming = \<lparr>is_playing = True, is_paused = False, is_player = False\<rparr>"

text \<open>
  An environment of the local backend, for a slash command, in which every source starts,
  the voice client is connected and silent, and a search finds nothing; and the same with
  a voice client that is streaming, and with a source that never starts.
\<close>

definition env_ok :: env where
  "env_ok =
     \<lparr>lavalink = False, export_limit = 100, get_guild = (\<lambda>g. True),
      voice_client = (\<lambda>g. Some silent), play_error = (\<lambda>tr. None),
      node_finds = (\<lambda>tr. True), search = (\<lambda>q. Inr []), choice = (\<lambda>cs. 0),
      connected = (\<lambda>g. Some silent), strict_reply = True\<rparr>"

definition env_streaming :: env where
  "env_streaming = env_ok\<lparr>voice_client := (\<lambda>g. Some streaming), connected := (\<lambda>g. Some streaming)\<rparr>"

definition env_failing :: env where
  "env_failing = env_ok\<lparr>play_error := (\<lambda>tr. Some ''boom'')\<rparr>"

definition itx1 :: interaction where
  "itx1 = \<lparr>guild = Some 1, user_id = 7, channel_id = Some 5\<rparr>"

definition itx2 :: interaction where
  "itx2 = \<lparr>guild = Some 2, user_id = 8, channel_id = Some 6\<rparr>"

text \<open>A world whose only session is that of guild 1, with no lock held and no state file.\<close>

definition one_session :: "GuildState \<Rightarrow> world" where
  "one_session st = \<lparr>states = [(1, st)], locked = {}, state_file = None, calls = []\<rparr>"

text \<open>Sessions of guild 1 that the statements below start from.\<close>

definition world_A :: world where
  "world_A = one_session (new_GuildState\<lparr>queue := [track_A], loop := LoopMode_ALL\<rparr>)"

definition world_ABC :: world where
  "world_ABC = one_session (new_GuildState\<lparr>queue := [track_A, track_B, track_C], loop := LoopMode_ALL\<rparr>)"

definition world_AB :: world where
  "world_AB = one_session (new_GuildState\<lparr>queue := [track_A, track_B]\<rparr>)"

definition world_queue_ABC :: world where
  "world_queue_ABC = one_session (new_GuildState\<lparr>queue := [track_A, track_B, track_C]\<rparr>)"

text \<open>A world in which the panel already sees a full snapshot of guild 1.\<close>

definition world_published :: world where
  "world_published =
     \<lparr>states = [(1, new_GuildState\<lparr>now := Some track_A\<rparr>)], locked = {},
      state_file = Some [(''1'', [(''status'', JStr ''playing''), (''title'', JStr ''A''),
                                  (''volume'', JInt 100)])],
      calls = []\<rparr>"

section \<open>Basic facts about the world\<close>

lemma gs_put [simp]: "gs g (put g st w) = (st, put g st w)"
  by (simp add: gs_def put_def update_conv')

lemma locked_put [simp]: "locked (put g st w) = locked w"
  by (simp add: put_def)

lemma locked_update_state [simp]: "locked (update_state g p w) = locked w"
  by (simp add: update_state_def save_json_state_def Let_def)

lemma locked_say [simp]: "locked (say c w) = locked w"
  by (simp add: say_def)

lemma locked_acquire [simp]: "locked (acquire l w) = insert l (locked w)"
  by (simp add: acquire_def)

lemma locked_gs [simp]: "locked (snd (gs g w)) = locked w"
  by (simp add: gs_def split: option.split)

lemma states_update_state [simp]: "states (update_state g p w) = states w"
  by (simp add: update_state_def save_json_state_def Let_def)

lemma states_say [simp]: "states (say c w) = states w"
  by (simp add: say_def)

lemma states_acquire [simp]: "states (acquire l w) = states w"
  by (simp add: acquire_def)

lemma gs_update_state [simp]:
  "gs g (update_state g' p w) = (fst (gs g w), update_state g' p (snd (gs g w)))"
  by (simp add: gs_def update_state_def save_json_state_def load_json_state_def Let_def
      split: option.split)

lemma gs_say [simp]: "gs g (say c w) = (fst (gs g w), say c (snd (gs g w)))"
  by (simp add: gs_def say_def split: option.split)

lemma locked_release [simp]: "locked (release l w) = locked w - {l}"
  by (simp add: release_def)

lemma calls_put [simp]: "calls (put g st w) = calls w"
  by (simp add: put_def)

lemma calls_update_state [simp]: "calls (update_state g p w) = calls w"
  by (simp add: update_state_def save_json_state_def Let_def)

lemma calls_say [simp]: "calls (say c w) = calls w @ [c]"
  by (simp add: say_def)

lemma calls_acquire [simp]: "calls (acquire l w) = calls w"
  by (simp add: acquire_def)

lemma calls_release [simp]: "calls (release l w) = calls w"
  by (simp add: release_def)

lemma state_file_put [simp]: "state_file (put g st w) = state_file w"
  by (simp add: put_def)

lemma state_file_say [simp]: "state_file (say c w) = state_file w"
  by (simp add: say_def)

lemma session_gs [simp]: "session g (snd (gs g w)) = Some (fst (gs g w))"
  by (simp add: session_def gs_def map_add_def split: option.split)

lemma session_put [simp]: "session g (put g' st w) = (if g = g' then Some st else session g w)"
  by (simp add: session_def put_def update_conv')

lemma session_update_state [simp]: "session g (update_state g' p w) = session g w"
  by (simp add: session_def)

lemma session_say [simp]: "session g (say c w) = session g w"
  by (simp add: session_def)

lemma session_acquire [simp]: "session g (acquire l w) = session g w"
  by (simp add: session_def)

lemma session_release [simp]: "session g (release l w) = session g w"
  by (simp add: session_def release_def)

lemma gs_existing: "session g w = Some st \<Longrightarrow> gs g w = (st, w)"
  by (simp add: session_def gs_def)

lemma published_put [simp]: "published g (put g' st w) = published g w"
  by (simp add: published_def load_json_state_def)

lemma published_say [simp]: "published g (say c w) = published g w"
  by (simp add: published_def load_json_state_def)

text \<open>
  What the sink does to the entry of its own guild: the entry becomes the payload it was
  given, whatever was stored before, and disappears when the payload is \<open>None\<close>. Entries
  under other keys stay.
\<close>

lemma published_update_state_same [simp]: "published g (update_state g p w) = p"
  by (cases p) (simp_all add: published_def load_json_state_def update_state_def
      save_json_state_def Let_def update_conv' delete_conv')

lemma update_state_other_keys:
  assumes "k \<noteq> py_str g"
  shows "map_of (load_json_state (update_state g p w)) k = map_of (load_json_state w) k"
  using assms
  by (cases p) (simp_all add: load_json_state_def update_state_def save_json_state_def
      Let_def update_conv' delete_conv')

section \<open>Facts about the playback engine\<close>

text \<open>A call that finds the lock held is suspended at once.\<close>

lemma play_next_held:
  assumes "guild itx = Some gid" and "lock (fst (gs gid w)) \<in> locked w"
  shows "play_next e t itx b w = Waits (snd (gs gid w))"
  using assms by (subst play_next.simps) (simp add: Let_def)

text \<open>So is the retry, which runs while its caller holds the lock of the same session.\<close>

lemma play_next_retry:
  assumes "guild itx = Some gid" and "lock st \<in> locked w"
  shows "play_next e t itx b (say c (update_state gid p (put gid st w)))
         = Waits (say c (update_state gid p (put gid st w)))"
  using assms by (simp add: play_next_held)

text \<open>Hence \<open>play_next\<close> without its recursive call.\<close>

lemma play_next_unfold:
  "play_next e t itx started_by_skip w =
     (case guild itx of
        None \<Rightarrow> Returned w
      | Some gid \<Rightarrow>
          (let vc = voice_client e gid;
               st = fst (gs gid w);
               w = snd (gs gid w)
           in if lock st \<in> locked w then Waits w
              else
                (let w = acquire (lock st) w;
                     popped =
                       (case queue st of
                          [] \<Rightarrow> None
                        | tr # rest \<Rightarrow>
                            Some (tr, st\<lparr>queue :=
                              (case now st of
                                 None \<Rightarrow> rest
                               | Some cur \<Rightarrow>
                                   if loop st = LoopMode_ALL \<and> \<not> started_by_skip
                                   then rest @ [cur] else rest)\<rparr>));
                     chosen =
                       (case now st of
                          None \<Rightarrow> popped
                        | Some cur \<Rightarrow>
                            if loop st = LoopMode_ONE \<and> \<not> started_by_skip
                            then Some (cur, st) else popped)
                 in case chosen of
                      None \<Rightarrow>
                        (let st = st\<lparr>now := None\<rparr>;
                             w = update_state gid
                                   (Some (snapshot_state (export_limit e) t st)) (put gid st w);
                             st = st\<lparr>idle_since := t\<rparr>
                         in Returned (release (lock st) (put gid st w)))
                    | Some (track, st) \<Rightarrow>
                        (let st = st\<lparr>now := Some track\<rparr>;
                             w = put gid st w;
                             payload =
                               dict_update (snapshot_state (export_limit e) t st)
                                 [(''title'', JStr (title track)),
                                  (''web'', JStr (webpage_url track)),
                                  (''duration'', JInt (duration track)),
                                  (''thumb'', json_opt_str (thumb track)),
                                  (''started_at'', JInt (py_int t)),
                                  (''status'', JStr ''playing'')];
                             w = update_state gid (Some payload) w
                         in if \<not> lavalink e \<and> vc = None then Returned (release (lock st) w)
                            else
                              (case play_error e track of
                                 None \<Rightarrow>
                                   Returned (release (lock st)
                                     (if lavalink e \<and> \<not> node_finds e track then w
                                      else say (VcPlay gid track) w))
                               | Some err \<Rightarrow> Waits (say (Send (PlaybackError err)) w))))))"
  apply (subst play_next.simps)
  apply (auto simp add: Let_def play_next_retry split: option.split list.split prod.split)
  done

text \<open>The single steps of the engine on an existing session whose lock is free.\<close>

lemma play_next_all:
  assumes "guild itx = Some gid" and "session gid w = Some st" and "lock st \<notin> locked w"
    and "loop st = LoopMode_ALL" and "now st = Some cur" and "queue st = tr # rest"
    and "play_error e tr = None"
  shows "\<exists>w'. play_next e t itx False w = Returned w' \<and> locked w' = locked w \<and>
           session gid w' = Some (st\<lparr>queue := rest @ [cur], now := Some tr\<rparr>) \<and>
           calls w' = calls w @ (if reaches_player e gid tr then [VcPlay gid tr] else [])"
  using assms
  by (auto simp add: play_next_unfold gs_existing Let_def LoopMode_defs reaches_player_def)

lemma play_next_one:
  assumes "guild itx = Some gid" and "session gid w = Some st" and "lock st \<notin> locked w"
    and "loop st = LoopMode_ONE" and "now st = Some cur"
    and "play_error e cur = None"
  shows "\<exists>w'. play_next e t itx False w = Returned w' \<and> locked w' = locked w \<and>
           session gid w' = Some st \<and>
           calls w' = calls w @ (if reaches_player e gid cur then [VcPlay gid cur] else [])"
  using assms
  by (auto simp add: play_next_unfold gs_existing Let_def LoopMode_defs reaches_player_def)

lemma play_next_forced:
  assumes "guild itx = Some gid" and "session gid w = Some st" and "lock st \<notin> locked w"
    and "queue st = tr # rest"
    and "play_error e tr = None"
  shows "\<exists>w'. play_next e t itx True w = Returned w' \<and> locked w' = locked w \<and>
           session gid w' = Some (st\<lparr>queue := rest, now := Some tr\<rparr>) \<and>
           calls w' = calls w @ (if reaches_player e gid tr then [VcPlay gid tr] else [])"
  using assms
  by (auto simp add: play_next_unfold gs_existing Let_def LoopMode_defs reaches_player_def
      split: option.split)

lemma play_next_first:
  assumes "guild itx = Some gid" and "session gid w = Some st" and "lock st \<notin> locked w"
    and "now st = None" and "queue st = tr # rest"
    and "play_error e tr = None"
  shows "\<exists>w'. play_next e t itx b w = Returned w' \<and> locked w' = locked w \<and>
           session gid w' = Some (st\<lparr>queue := rest, now := Some tr\<rparr>) \<and>
           calls w' = calls w @ (if reaches_player e gid tr then [VcPlay gid tr] else [])"
  using assms
  by (auto simp add: play_next_unfold gs_existing Let_def LoopMode_defs reaches_player_def
      split: option.split)

lemma play_next_idle:
  assumes "guild itx = Some gid" and "session gid w = Some st" and "lock st \<notin> locked w"
    and "queue st = []" and "now st = None \<or> loop st \<noteq> LoopMode_ONE \<or> b"
  shows "\<exists>w'. play_next e t itx b w = Returned w' \<and> locked w' = locked w \<and>
           session gid w' = Some (st\<lparr>now := None, idle_since := t\<rparr>) \<and>
           calls w' = calls w"
  using assms
  by (auto simp add: play_next_unfold gs_existing Let_def LoopMode_defs split: option.split)

text \<open>A failed start: the caller is told, and the retry waits on the caller's own lock.\<close>

lemma play_next_start_fails:
  assumes "guild itx = Some gid" and "session gid w = Some st" and "lock st \<notin> locked w"
    and "now st = None" and "queue st = tr # rest"
    and "play_error e tr = Some err" and "voice_client e gid \<noteq> None"
  shows "\<exists>w'. play_next e t itx b w = Waits w' \<and> locked w' = insert (lock st) (locked w) \<and>
           session gid w' = Some (st\<lparr>queue := rest, now := Some tr\<rparr>) \<and>
           (\<forall>g. g \<noteq> gid \<longrightarrow> session g w' = session g w) \<and>
           calls w' = calls w @ [Send (PlaybackError err)]"
  using assms
  by (auto simp add: play_next_unfold gs_existing Let_def LoopMode_defs split: option.split)

text \<open>The completion callback adds nothing to a queue that has a track, or without autoplay.\<close>

lemma after_finished_plain:
  assumes "guild itx = Some gid" and "session gid w = Some st"
    and "queue st \<noteq> [] \<or> (\<not> autoplay st \<and> \<not> truthy (radio_query st))"
  shows "after_finished e t itx w = play_next e t itx False w"
  using assms by (auto simp add: after_finished_def gs_existing Let_def)

text \<open>
  In loop-all mode the playing track followed by the queue is a ring that each natural
  completion turns by one place.
\<close>

lemma completions_all:
  assumes "guild itx = Some gid" and "session gid w = Some st" and "lock st \<notin> locked w"
    and "loop st = LoopMode_ALL" and "now st = Some cur" and "queue st \<noteq> []"
    and "\<forall>tr \<in> set (cur # queue st). play_error e tr = None"
  shows "\<exists>w' cur' q'. completions e ts itx w = Returned w' \<and> locked w' = locked w \<and>
           session gid w' = Some (st\<lparr>queue := q', now := Some cur'\<rparr>) \<and>
           cur' # q' = rotate (length ts) (cur # queue st)"
  using assms
proof (induction ts arbitrary: w st cur)
  case Nil
  then show ?case by simp
next
  case (Cons t ts)
  from Cons.prems(6) obtain tr rest where q: "queue st = tr # rest"
    by (cases "queue st") auto
  have ok: "play_error e tr = None"
    using Cons.prems(7) q by simp
  from play_next_all[OF Cons.prems(1) Cons.prems(2) Cons.prems(3) Cons.prems(4)
      Cons.prems(5) q ok]
  obtain w1 where step: "play_next e t itx False w = Returned w1"
    and l1: "locked w1 = locked w"
    and s1: "session gid w1 = Some (st\<lparr>queue := rest @ [cur], now := Some tr\<rparr>)"
    by blast
  let ?st1 = "st\<lparr>queue := rest @ [cur], now := Some tr\<rparr>"
  have af: "after_finished e t itx w = Returned w1"
    using after_finished_plain[OF Cons.prems(1) Cons.prems(2)] Cons.prems(6) step by simp
  have p3: "lock ?st1 \<notin> locked w1" using Cons.prems(3) l1 by simp
  have p4: "loop ?st1 = LoopMode_ALL" using Cons.prems(4) by simp
  have p5: "now ?st1 = Some tr" by simp
  have p6: "queue ?st1 \<noteq> []" by simp
  have p7: "\<forall>x \<in> set (tr # queue ?st1). play_error e x = None"
    using Cons.prems(7) q by auto
  from Cons.IH[OF Cons.prems(1) s1 p3 p4 p5 p6 p7]
  obtain w' cur' q' where r: "completions e ts itx w1 = Returned w'"
    and l': "locked w' = locked w1"
    and s': "session gid w' = Some (?st1\<lparr>queue := q', now := Some cur'\<rparr>)"
    and rot: "cur' # q' = rotate (length ts) (tr # queue ?st1)"
    by blast
  have eq: "rotate (length ts) (tr # queue ?st1) = rotate (length (t # ts)) (cur # queue st)"
    using q by (simp add: rotate1_rotate_swap)
  have c: "completions e (t # ts) itx w = Returned w'"
    using af r by simp
  have l: "locked w' = locked w"
    using l' l1 by simp
  have s: "session gid w' = Some (st\<lparr>queue := q', now := Some cur'\<rparr>)"
    using s' by simp
  have "cur' # q' = rotate (length (t # ts)) (cur # queue st)"
    using rot eq by simp
  with c l s show ?case by blast
qed

text \<open>
  In loop-one mode natural completions leave the session as it is, and each of them
  hands the same track to the player again.
\<close>

lemma completions_one:
  assumes "guild itx = Some gid" and "session gid w = Some st" and "lock st \<notin> locked w"
    and "loop st = LoopMode_ONE" and "now st = Some cur" and "queue st \<noteq> []"
    and "plays e gid cur"
  shows "\<exists>w'. completions e ts itx w = Returned w' \<and> locked w' = locked w \<and>
           session gid w' = Some st \<and>
           calls w' = calls w @ replicate (length ts) (VcPlay gid cur)"
  using assms
proof (induction ts arbitrary: w)
  case Nil
  then show ?case by simp
next
  case (Cons t ts)
  have ok: "play_error e cur = None" and rp: "reaches_player e gid cur"
    using Cons.prems(7) by (simp_all add: plays_def)
  from play_next_one[OF Cons.prems(1) Cons.prems(2) Cons.prems(3) Cons.prems(4)
      Cons.prems(5) ok, of t] rp
  obtain w1 where step: "play_next e t itx False w = Returned w1"
    and l1: "locked w1 = locked w" and s1: "session gid w1 = Some st"
    and c1: "calls w1 = calls w @ [VcPlay gid cur]"
    by auto
  have af: "after_finished e t itx w = Returned w1"
    using after_finished_plain[OF Cons.prems(1) Cons.prems(2)] Cons.prems(6) step by simp
  have p3: "lock st \<notin> locked w1" using Cons.prems(3) l1 by simp
  from Cons.IH[OF Cons.prems(1) s1 p3 Cons.prems(4) Cons.prems(5) Cons.prems(6)
      Cons.prems(7)]
  obtain w' where r: "completions e ts itx w1 = Returned w'" and l': "locked w' = locked w1"
    and s': "session gid w' = Some st"
    and c': "calls w' = calls w1 @ replicate (length ts) (VcPlay gid cur)"
    by blast
  have "calls w' = calls w @ replicate (length (t # ts)) (VcPlay gid cur)"
    using c' c1 by simp
  with af r l' l1 s' show ?case by simp
qed

section \<open>Facts about list positions\<close>

lemma py_pop_valid:
  "0 \<le> i \<Longrightarrow> i < int (length xs) \<Longrightarrow> py_pop i xs = Some (xs ! nat i, delete_at (nat i) xs)"
  by (simp add: py_pop_def delete_at_def Let_def)

lemma py_insert_valid:
  "0 \<le> i \<Longrightarrow> i \<le> int (length xs) \<Longrightarrow> py_insert i x xs = insert_at (nat i) x xs"
  by (simp add: py_insert_def insert_at_def Let_def min_def)

lemma length_delete_at: "n < length xs \<Longrightarrow> length (delete_at n xs) = length xs - 1"
  by (simp add: delete_at_def)

lemma insert_at_nth: "n \<le> length xs \<Longrightarrow> insert_at n x xs ! n = x"
  by (simp add: insert_at_def nth_append)

lemma delete_at_insert_at: "n \<le> length xs \<Longrightarrow> delete_at n (insert_at n x xs) = xs"
  by (simp add: insert_at_def delete_at_def)

lemma length_insert_at: "length (insert_at n x xs) = Suc (length xs)"
  by (simp add: insert_at_def)

section \<open>Facts about the concrete inputs\<close>

lemma session_one_session [simp]: "session 1 (one_session st) = Some st"
  by (simp add: session_def one_session_def)

lemma locked_one_session [simp]: "locked (one_session st) = {}"
  by (simp add: one_session_def)

lemma calls_one_session [simp]: "calls (one_session st) = []"
  by (simp add: one_session_def)

lemma guild_itx1 [simp]: "guild itx1 = Some 1"
  by (simp add: itx1_def)

lemma play_error_env_ok [simp]: "play_error env_ok tr = None"
  by (simp add: env_ok_def)

lemma guild_itx2 [simp]: "guild itx2 = Some 2"
  by (simp add: itx2_def)

section \<open>Facts about the watcher's cursor\<close>

text \<open>The cursor after a pass is the larger of the old cursor and the length of the file, and
  a file that ends at or before the cursor is emptied unread.\<close>

lemma watcher_cycle_cursor:
  "fst (snd (watcher_cycle pos (Some content))) = max pos (length content)
   \<and> snd (snd (watcher_cycle pos (Some content))) = Some []"
  by (simp add: watcher_cycle_def Let_def max_def)

lemma watcher_cycle_behind_cursor:
  assumes "length content \<le> pos"
  shows "watcher_cycle pos (Some content) = ([], pos, Some [])"
  using assms by (auto simp add: watcher_cycle_def Let_def)

section \<open>Facts about remove and move\<close>

lemma remove_invalid:
  assumes "guild itx = Some gid"
    and "index < 1 \<or> int (length (queue (fst (gs gid w)))) < index"
  shows "remove e t itx index w = Raised TypeError (snd (gs gid w))"
    and "watcher_queue_remove e t gid (Some index) w = Returned (snd (gs gid w))"
  using assms by (auto simp add: remove_def watcher_queue_remove_def Let_def)

lemma remove_valid:
  assumes "guild itx = Some gid"
    and "1 \<le> index" and "index \<le> int (length (queue (fst (gs gid w))))"
  shows "\<exists>w'. remove e t itx index w = Raised TypeError w' \<and>
           session gid w' = Some ((fst (gs gid w))\<lparr>queue :=
              delete_at (nat (index - 1)) (queue (fst (gs gid w)))\<rparr>)"
    and "\<exists>w'. watcher_queue_remove e t gid (Some index) w = Returned w' \<and>
           session gid w' = Some ((fst (gs gid w))\<lparr>queue :=
              delete_at (nat (index - 1)) (queue (fst (gs gid w)))\<rparr>)"
  using assms by (simp_all add: remove_def watcher_queue_remove_def Let_def py_pop_valid)

lemma move_invalid:
  assumes "guild itx = Some gid"
    and "src < 1 \<or> dst < 1 \<or> int (length (queue (fst (gs gid w)))) < src
           \<or> int (length (queue (fst (gs gid w)))) < dst"
  shows "move e t itx src dst w = Raised TypeError (snd (gs gid w))"
    and "watcher_queue_move e t gid (Some src) (Some dst) w = Returned (snd (gs gid w))"
  using assms by (auto simp add: move_def watcher_queue_move_def Let_def)

lemma move_valid:
  assumes "guild itx = Some gid"
    and "1 \<le> src" and "src \<le> int (length (queue (fst (gs gid w))))"
    and "1 \<le> dst" and "dst \<le> int (length (queue (fst (gs gid w))))"
  shows "\<exists>w'. move e t itx src dst w = Raised TypeError w' \<and>
           session gid w' = Some ((fst (gs gid w))\<lparr>queue :=
              insert_at (nat (dst - 1)) (queue (fst (gs gid w)) ! nat (src - 1))
                (delete_at (nat (src - 1)) (queue (fst (gs gid w))))\<rparr>)"
    and "\<exists>w'. watcher_queue_move e t gid (Some src) (Some dst) w = Returned w' \<and>
           session gid w' = Some ((fst (gs gid w))\<lparr>queue :=
              insert_at (nat (dst - 1)) (queue (fst (gs gid w)) ! nat (src - 1))
                (delete_at (nat (src - 1)) (queue (fst (gs gid w))))\<rparr>)"
  using assms
  by (simp_all add: move_def watcher_queue_move_def Let_def py_pop_valid py_insert_valid
      length_delete_at)

lemma moved_insert_delete:
  assumes "i < length q" and "j < length q"
  shows "moved i j q (insert_at j (q ! i) (delete_at i q))"
  using assms
  by (simp add: moved_def length_insert_at length_delete_at insert_at_nth delete_at_insert_at)

lemma insert_at_delete_at:
  assumes "j < length xs"
  shows "insert_at j (xs ! j) (delete_at j xs) = xs"
proof -
  have "take j (delete_at j xs) = take j xs"
    using assms by (simp add: delete_at_def)
  moreover have "drop j (delete_at j xs) = drop (Suc j) xs"
    using assms by (simp add: delete_at_def)
  ultimately show ?thesis
    using assms by (simp add: insert_at_def id_take_nth_drop[symmetric])
qed

lemma moved_determines:
  assumes "moved i j q q'" and "j < length q"
  shows "q' = insert_at j (q ! i) (delete_at i q)"
proof -
  from assms have "j < length q'" and "q' ! j = q ! i" and "delete_at j q' = delete_at i q"
    by (simp_all add: moved_def)
  with insert_at_delete_at[of j q'] show ?thesis
    by simp
qed

section \<open>A search that finds nothing\<close>

text \<open>While something plays or is paused, \<open>play\<close> goes straight to \<open>first.title\<close>.\<close>

lemma play_nothing_found_while_playing:
  assumes "guild itx = Some gid" and "connected e gid = Some vc"
    and "is_playing vc \<or> is_paused vc" and "search e query = Inr []"
  shows "raised (play e t itx query w) = Some AttributeError"
  using assms by (auto simp add: play_def Let_def)

section \<open>Facts about the idle reaper\<close>

text \<open>One visit, when it evicts and when it does not.\<close>

lemma idle_check_evicts:
  assumes "session gid w = Some st" and "evicts e t1 t2 gid st"
  shows "calls (idle_check e t1 t2 gid w) = calls w @ [VcDisconnect gid]"
    and "session gid (idle_check e t1 t2 gid w) = Some ((clear st)\<lparr>idle_since := 0\<rparr>)"
    and "published gid (idle_check e t1 t2 gid w) = None"
  using assms
  by (auto simp add: idle_check_def evicts_def session_def[symmetric] Let_def clear_def
      split: option.splits if_splits)

lemma idle_check_keeps:
  assumes "session gid w = Some st" and "\<not> evicts e t1 t2 gid st"
  shows "calls (idle_check e t1 t2 gid w) = calls w"
    and "state_file (idle_check e t1 t2 gid w) = state_file w"
    and "session gid (idle_check e t1 t2 gid w) = Some (st\<lparr>idle_since := stamp e t1 gid st\<rparr>)"
  using assms
  by (auto simp add: idle_check_def evicts_def stamp_def session_def[symmetric] Let_def
      split: option.splits if_splits)

text \<open>A run of visits is the run of its first part followed by the run of the rest.\<close>

lemma reaper_visits_append:
  "reaper_visits (rs @ rs') gid w = reaper_visits rs' gid (reaper_visits rs gid w)"
  by (induction rs arbitrary: w) auto

text \<open>A session with a track in its queue is never evicted, whatever the visits observe.\<close>

lemma reaper_visits_queued:
  assumes "session gid w = Some st" and "queue st \<noteq> []"
  shows "calls (reaper_visits rs gid w) = calls w \<and>
         state_file (reaper_visits rs gid w) = state_file w \<and>
         (\<exists>s. session gid (reaper_visits rs gid w) = Some (st\<lparr>idle_since := s\<rparr>))"
  using assms
proof (induction rs arbitrary: w st)
  case Nil
  have "st = st\<lparr>idle_since := idle_since st\<rparr>"
    by simp
  then have "\<exists>s. st = st\<lparr>idle_since := s\<rparr>"
    by (rule exI)
  with Nil show ?case by simp
next
  case (Cons r rs)
  obtain e t1 t2 where r: "r = (e, t1, t2)"
    by (cases r) auto
  have ne: "\<not> evicts e t1 t2 gid st"
    using Cons.prems(2) by (simp add: evicts_def)
  let ?w1 = "idle_check e t1 t2 gid w"
  let ?st1 = "st\<lparr>idle_since := stamp e t1 gid st\<rparr>"
  note k = idle_check_keeps[OF Cons.prems(1) ne]
  have q1: "queue ?st1 \<noteq> []"
    using Cons.prems(2) by simp
  from Cons.IH[OF k(3) q1]
  obtain s where c: "calls (reaper_visits rs gid ?w1) = calls ?w1"
    and f: "state_file (reaper_visits rs gid ?w1) = state_file ?w1"
    and s: "session gid (reaper_visits rs gid ?w1) = Some (?st1\<lparr>idle_since := s\<rparr>)"
    by blast
  have "session gid (reaper_visits (r # rs) gid w) = Some (st\<lparr>idle_since := s\<rparr>)"
    using s r by simp
  then have "\<exists>s. session gid (reaper_visits (r # rs) gid w) = Some (st\<lparr>idle_since := s\<rparr>)"
    by (rule exI)
  with c f k r show ?case by simp
qed

text \<open>
  A stamped session that is visited while the guild stays quiet keeps its stamp, and is
  left alone as long as the stamp is not more than 120 seconds old.
\<close>

lemma reaper_visits_quiet:
  assumes "session gid w = Some st" and "idle_since st \<noteq> 0"
    and "\<forall>r \<in> set rs. quiet (fst r) gid \<and> \<not> 120 < snd (snd r) - idle_since st"
  shows "calls (reaper_visits rs gid w) = calls w \<and>
         state_file (reaper_visits rs gid w) = state_file w \<and>
         session gid (reaper_visits rs gid w) = Some st"
  using assms
proof (induction rs arbitrary: w)
  case Nil
  then show ?case by simp
next
  case (Cons r rs)
  obtain e t1 t2 where r: "r = (e, t1, t2)"
    by (cases r) auto
  have qu: "quiet e gid" and young: "\<not> 120 < t2 - idle_since st"
    using Cons.prems(3) r by simp_all
  have ne: "\<not> evicts e t1 t2 gid st"
    using young Cons.prems(2) by (simp add: evicts_def)
  have st: "stamp e t1 gid st = idle_since st"
    using qu Cons.prems(2) by (auto simp add: stamp_def quiet_def split: option.splits)
  let ?w1 = "idle_check e t1 t2 gid w"
  note k = idle_check_keeps[OF Cons.prems(1) ne]
  have s1: "session gid ?w1 = Some st"
    using k(3) st by simp
  have rest: "\<forall>r \<in> set rs. quiet (fst r) gid \<and> \<not> 120 < snd (snd r) - idle_since st"
    using Cons.prems(3) by simp
  from Cons.IH[OF s1 Cons.prems(2) rest] k r
  show ?case by simp
qed

section \<open>Loop-all mode with a track in the queue\<close>

text \<open>
  Take a session in loop-all mode whose lock is free, in an environment where the sources
  of its tracks are obtained without an exception.
  \<^item> With a track \<open>cur\<close> playing and a queue \<open>tr # rest\<close>, a natural advance returns with
    \<open>tr\<close> playing and the queue \<open>rest @ [cur]\<close>: the front is popped first and the
    finished track is appended after that.
  \<^item> With a track playing and a non-empty queue, any run of natural completions returns
    with a track playing and a queue of the same length: the playing track followed by
    the queue is turned by one place per completion.
  \<^item> From the queue \<open>[a, b, c]\<close> with nothing playing, the first advance followed by \<open>n\<close>
    natural completions leaves the track at position \<open>n mod 3\<close> playing: a, b, c, a, b, c
    and so on.
\<close>

theorem loop_all_rotation:
  assumes "guild itx = Some gid" and "session gid w = Some st" and "lock st \<notin> locked w"
    and "loop st = LoopMode_ALL"
    and "\<forall>tr \<in> set_option (now st) \<union> set (queue st). play_error e tr = None"
  shows "(\<forall>cur tr rest. now st = Some cur \<and> queue st = tr # rest \<longrightarrow>
            (\<exists>w'. play_next e t itx False w = Returned w' \<and>
                  session gid w' = Some (st\<lparr>queue := rest @ [cur], now := Some tr\<rparr>)))
       \<and> (\<forall>cur. now st = Some cur \<and> queue st \<noteq> [] \<longrightarrow>
            (\<exists>w' cur' q'. completions e ts itx w = Returned w' \<and>
                  session gid w' = Some (st\<lparr>queue := q', now := Some cur'\<rparr>) \<and>
                  cur' # q' = rotate (length ts) (cur # queue st) \<and>
                  length q' = length (queue st)))
       \<and> (\<forall>a b c. now st = None \<and> queue st = [a, b, c] \<longrightarrow>
            (\<exists>w1 w'. play_next e t itx False w = Returned w1 \<and>
                  completions e ts itx w1 = Returned w' \<and>
                  map_option now (session gid w') = Some (Some ([a, b, c] ! (length ts mod 3)))))"
proof (intro conjI allI impI)
  fix cur tr rest
  assume h: "now st = Some cur \<and> queue st = tr # rest"
  then have "play_error e tr = None"
    using assms(5) by simp
  from play_next_all[OF assms(1) assms(2) assms(3) assms(4) _ _ this, of cur rest t] h
  show "\<exists>w'. play_next e t itx False w = Returned w' \<and>
             session gid w' = Some (st\<lparr>queue := rest @ [cur], now := Some tr\<rparr>)"
    by blast
next
  fix cur
  assume h: "now st = Some cur \<and> queue st \<noteq> []"
  then have ok: "\<forall>tr \<in> set (cur # queue st). play_error e tr = None"
    using assms(5) by simp
  from completions_all[OF assms(1) assms(2) assms(3) assms(4) _ _ ok, of ts] h
  obtain w' cur' q' where c: "completions e ts itx w = Returned w'"
    and s: "session gid w' = Some (st\<lparr>queue := q', now := Some cur'\<rparr>)"
    and r: "cur' # q' = rotate (length ts) (cur # queue st)"
    by blast
  from r have "length (cur' # q') = length (cur # queue st)"
    by simp
  then have "length q' = length (queue st)"
    by simp
  with c s r
  show "\<exists>w' cur' q'. completions e ts itx w = Returned w' \<and>
          session gid w' = Some (st\<lparr>queue := q', now := Some cur'\<rparr>) \<and>
          cur' # q' = rotate (length ts) (cur # queue st) \<and> length q' = length (queue st)"
    by blast
next
  fix a b c
  assume h: "now st = None \<and> queue st = [a, b, c]"
  then have oka: "play_error e a = None"
    using assms(5) by simp
  from h have n: "now st = None" and q: "queue st = a # [b, c]"
    by simp_all
  from play_next_first[OF assms(1) assms(2) assms(3) n q oka, of t False]
  obtain w1 where p: "play_next e t itx False w = Returned w1"
    and l1: "locked w1 = locked w"
    and s1: "session gid w1 = Some (st\<lparr>queue := [b, c], now := Some a\<rparr>)"
    by blast
  let ?st1 = "st\<lparr>queue := [b, c], now := Some a\<rparr>"
  have p3: "lock ?st1 \<notin> locked w1" using assms(3) l1 by simp
  have p4: "loop ?st1 = LoopMode_ALL" using assms(4) by simp
  have p5: "now ?st1 = Some a" by simp
  have p6: "queue ?st1 \<noteq> []" by simp
  have p7: "\<forall>x \<in> set (a # queue ?st1). play_error e x = None"
    using assms(5) h by simp
  from completions_all[OF assms(1) s1 p3 p4 p5 p6 p7, of ts]
  obtain w' cur' q' where c: "completions e ts itx w1 = Returned w'"
    and s: "session gid w' = Some (?st1\<lparr>queue := q', now := Some cur'\<rparr>)"
    and r: "cur' # q' = rotate (length ts) (a # queue ?st1)"
    by blast
  have "hd (rotate (length ts) [a, b, c]) = [a, b, c] ! (length ts mod length [a, b, c])"
    by (rule hd_rotate_conv_nth) simp
  then have hd3: "hd (rotate (length ts) [a, b, c]) = [a, b, c] ! (length ts mod 3)"
    by simp
  from r have "cur' # q' = rotate (length ts) [a, b, c]"
    by simp
  then have "cur' = hd (rotate (length ts) [a, b, c])"
    by (metis list.sel(1))
  with hd3 have "cur' = [a, b, c] ! (length ts mod 3)"
    by simp
  with p c s
  show "\<exists>w1 w'. play_next e t itx False w = Returned w1 \<and> completions e ts itx w1 = Returned w' \<and>
          map_option now (session gid w') = Some (Some ([a, b, c] ! (length ts mod 3)))"
    by auto
qed

text \<open>
  An instance: the queue A, B, C of guild 1 after the first advance and four natural
  completions plays B; and with A playing and B queued, a natural advance plays B and
  leaves A in the queue.
\<close>

theorem loop_all_rotation_witness:
  "(\<exists>w1 w'. play_next env_ok 0 itx1 False world_ABC = Returned w1 \<and>
       completions env_ok [1, 2, 3, 4] itx1 w1 = Returned w' \<and>
       map_option now (session 1 w') = Some (Some track_B))
   \<and> (\<exists>w'. play_next env_ok 0 itx1 False
              (one_session (new_GuildState\<lparr>queue := [track_B], loop := LoopMode_ALL,
                                             now := Some track_A\<rparr>)) = Returned w' \<and>
           map_option now (session 1 w') = Some (Some track_B) \<and>
           map_option queue (session 1 w') = Some [track_A])"
proof -
  let ?st = "new_GuildState\<lparr>queue := [track_A, track_B, track_C], loop := LoopMode_ALL\<rparr>"
  have a: "session 1 world_ABC = Some ?st"
    by (simp add: world_ABC_def)
  have b: "lock ?st \<notin> locked world_ABC"
    by (simp add: world_ABC_def)
  have c: "loop ?st = LoopMode_ALL"
    by simp
  have d: "\<forall>tr \<in> set_option (now ?st) \<union> set (queue ?st). play_error env_ok tr = None"
    by simp
  have n: "now ?st = None \<and> queue ?st = [track_A, track_B, track_C]"
    by (simp add: new_GuildState_def)
  from loop_all_rotation[OF guild_itx1 a b c d, of 0 "[1, 2, 3, 4]"] n
  have first: "\<exists>w1 w'. play_next env_ok 0 itx1 False world_ABC = Returned w1 \<and>
       completions env_ok [1, 2, 3, 4] itx1 w1 = Returned w' \<and>
       map_option now (session 1 w') = Some (Some track_B)"
    by simp
  let ?st2 = "new_GuildState\<lparr>queue := [track_B], loop := LoopMode_ALL, now := Some track_A\<rparr>"
  have a2: "session 1 (one_session ?st2) = Some ?st2"
    by simp
  have b2: "lock ?st2 \<notin> locked (one_session ?st2)"
    by simp
  have c2: "loop ?st2 = LoopMode_ALL"
    by simp
  have d2: "\<forall>tr \<in> set_option (now ?st2) \<union> set (queue ?st2). play_error env_ok tr = None"
    by simp
  have n2: "now ?st2 = Some track_A \<and> queue ?st2 = track_B # []"
    by simp
  from loop_all_rotation[OF guild_itx1 a2 b2 c2 d2, of 0 "[]"] n2
  have "\<exists>w'. play_next env_ok 0 itx1 False (one_session ?st2) = Returned w' \<and>
           session 1 w' = Some (?st2\<lparr>queue := [] @ [track_A], now := Some track_B\<rparr>)"
    by blast
  then have second: "\<exists>w'. play_next env_ok 0 itx1 False (one_session ?st2) = Returned w' \<and>
           map_option now (session 1 w') = Some (Some track_B) \<and>
           map_option queue (session 1 w') = Some [track_A]"
    by auto
  from first second show ?thesis
    by blast
qed

section \<open>The claims\<close>

subsection \<open>C1: loop-all mode\<close>

text \<open>
  Claim C1, on the code. A session in loop-all mode whose queue holds the one track A,
  with nothing playing. The first advance hands A to the player and empties the queue.
  When A ends by itself, the engine finds the queue empty (lines 531-535) before it
  reaches the re-append of lines 537-539: the session is idle with an empty queue, still
  in loop-all mode, and the player has been given A once and nothing since. The session
  does not keep replaying; the step of popping and re-appending and the cycle of three
  tracks are \<open>loop_all_rotation\<close> above.
\<close>

theorem loop_all_lone_track_goes_idle:
  "returned (play_next env_ok 0 itx1 False world_A)
   \<and> map_option now (session 1 (world_of (play_next env_ok 0 itx1 False world_A)))
       = Some (Some track_A)
   \<and> map_option loop (session 1 (world_of (play_next env_ok 0 itx1 False world_A)))
       = Some LoopMode_ALL
   \<and> calls (world_of (play_next env_ok 0 itx1 False world_A)) = [VcPlay 1 track_A]
   \<and> returned (after_finished env_ok 1 itx1 (world_of (play_next env_ok 0 itx1 False world_A)))
   \<and> map_option now (session 1
        (world_of (after_finished env_ok 1 itx1
           (world_of (play_next env_ok 0 itx1 False world_A))))) = Some None
   \<and> map_option queue (session 1
        (world_of (after_finished env_ok 1 itx1
           (world_of (play_next env_ok 0 itx1 False world_A))))) = Some []
   \<and> map_option loop (session 1
        (world_of (after_finished env_ok 1 itx1
           (world_of (play_next env_ok 0 itx1 False world_A))))) = Some LoopMode_ALL
   \<and> calls (world_of (after_finished env_ok 1 itx1
           (world_of (play_next env_ok 0 itx1 False world_A)))) = [VcPlay 1 track_A]"
proof -
  let ?st = "new_GuildState\<lparr>queue := [track_A], loop := LoopMode_ALL\<rparr>"
  have a: "session 1 world_A = Some ?st"
    by (simp add: world_A_def)
  have b: "lock ?st \<notin> locked world_A"
    by (simp add: world_A_def)
  have n: "now ?st = None"
    by (simp add: new_GuildState_def)
  have q: "queue ?st = track_A # []"
    by simp
  have rp: "reaches_player env_ok 1 track_A"
    by (simp add: reaches_player_def env_ok_def)
  from play_next_first[OF guild_itx1 a b n q play_error_env_ok, of 0 False] rp
  obtain w1 where p: "play_next env_ok 0 itx1 False world_A = Returned w1"
    and l1: "locked w1 = locked world_A"
    and s1: "session 1 w1 = Some (?st\<lparr>queue := [], now := Some track_A\<rparr>)"
    and c1: "calls w1 = calls world_A @ [VcPlay 1 track_A]"
    by auto
  let ?st1 = "?st\<lparr>queue := [], now := Some track_A\<rparr>"
  have quiet: "queue ?st1 \<noteq> [] \<or> (\<not> autoplay ?st1 \<and> \<not> truthy (radio_query ?st1))"
    by (simp add: new_GuildState_def truthy_def)
  have af: "after_finished env_ok 1 itx1 w1 = play_next env_ok 1 itx1 False w1"
    by (rule after_finished_plain[OF guild_itx1 s1 quiet])
  have b1: "lock ?st1 \<notin> locked w1"
    using b l1 by simp
  have e1: "queue ?st1 = []"
    by simp
  have m1: "now ?st1 = None \<or> loop ?st1 \<noteq> LoopMode_ONE \<or> False"
    by (simp add: LoopMode_defs)
  from play_next_idle[OF guild_itx1 s1 b1 e1 m1, of env_ok 1]
  obtain w2 where p2: "play_next env_ok 1 itx1 False w1 = Returned w2"
    and s2: "session 1 w2 = Some (?st1\<lparr>now := None, idle_since := 1\<rparr>)"
    and c2: "calls w2 = calls w1"
    by blast
  have c0: "calls world_A = []"
    by (simp add: world_A_def)
  show ?thesis
    using p s1 af p2 s2 c1 c2 c0 by simp
qed

subsection \<open>C2: the watcher's read cursor\<close>

text \<open>
  Claim C2, on the code. A first pass from cursor 0 over a log that holds the line
  \<open>a\<close> reads it, empties the log and leaves the cursor at 2, the end of what it read. A
  pass over the empty log reads nothing. After the producer has appended the line \<open>b\<close> to
  the emptied log, the next pass seeks to offset 2, reads nothing and empties the log: the
  line is never delivered. A pass from cursor 0 would have read it.
\<close>

theorem watcher_cursor_stays_behind:
  "watcher_cycle 0 (append_control ''a'' None) = ([''a''], 2, Some [])
   \<and> watcher_cycle 2 (Some []) = ([], 2, Some [])
   \<and> watcher_cycle 2 (append_control ''b'' (Some [])) = ([], 2, Some [])
   \<and> watcher_cycle 0 (append_control ''b'' (Some [])) = ([''b''], 2, Some [])"
  by (simp add: watcher_cycle_def append_control_def strip_def is_space_def Let_def)

subsection \<open>C3: the retry after a failed start\<close>

text \<open>
  Claim C3, on the code. Guild 1 has the queue A, B, nothing plays, the lock is free, and
  starting a source raises. \<open>play_next\<close> pops A, reports the error to the caller and calls
  itself while it is still inside \<open>async with st.lock\<close>: the call does not return, the
  lock stays held, A stays the track that is shown as playing, and B stays in the queue.
  Any later advance waits as well, for guild 1 and, since every session refers to the
  same lock object, for guild 2.
\<close>

theorem retry_waits_on_own_lock:
  "waits (play_next env_failing 0 itx1 False world_AB)
   \<and> locked (world_of (play_next env_failing 0 itx1 False world_AB)) = {default_lock}
   \<and> map_option now (session 1 (world_of (play_next env_failing 0 itx1 False world_AB)))
       = Some (Some track_A)
   \<and> map_option queue (session 1 (world_of (play_next env_failing 0 itx1 False world_AB)))
       = Some [track_B]
   \<and> calls (world_of (play_next env_failing 0 itx1 False world_AB))
       = [Send (PlaybackError ''boom'')]
   \<and> waits (play_next env_ok 1 itx1 False
              (world_of (play_next env_failing 0 itx1 False world_AB)))
   \<and> waits (play_next env_ok 1 itx2 False
              (world_of (play_next env_failing 0 itx1 False world_AB)))"
proof -
  let ?st = "new_GuildState\<lparr>queue := [track_A, track_B]\<rparr>"
  have a: "session 1 world_AB = Some ?st"
    by (simp add: world_AB_def)
  have b: "lock ?st \<notin> locked world_AB"
    by (simp add: world_AB_def)
  have n: "now ?st = None"
    by (simp add: new_GuildState_def)
  have q: "queue ?st = track_A # [track_B]"
    by simp
  have f: "play_error env_failing track_A = Some ''boom''"
    by (simp add: env_failing_def)
  have v: "voice_client env_failing 1 \<noteq> None"
    by (simp add: env_failing_def env_ok_def)
  from play_next_start_fails[OF guild_itx1 a b n q f v, of 0 False]
  obtain w' where p: "play_next env_failing 0 itx1 False world_AB = Waits w'"
    and l: "locked w' = insert (lock ?st) (locked world_AB)"
    and s: "session 1 w' = Some (?st\<lparr>queue := [track_B], now := Some track_A\<rparr>)"
    and o: "\<forall>g. g \<noteq> 1 \<longrightarrow> session g w' = session g world_AB"
    and c: "calls w' = calls world_AB @ [Send (PlaybackError ''boom'')]"
    by blast
  have s2: "session 2 w' = None"
    using o by (simp add: session_def world_AB_def one_session_def)
  have l': "locked w' = {default_lock}"
    using l by (simp add: world_AB_def new_GuildState_def)
  have h1: "lock (fst (gs 1 w')) \<in> locked w'"
    using s l' by (simp add: gs_existing new_GuildState_def)
  have h2: "lock (fst (gs 2 w')) \<in> locked w'"
    using l' s2 by (simp add: gs_def session_def new_GuildState_def)
  have w1: "play_next env_ok 1 itx1 False w' = Waits (snd (gs 1 w'))"
    by (rule play_next_held[OF guild_itx1 h1])
  have w2: "play_next env_ok 1 itx2 False w' = Waits (snd (gs 2 w'))"
    by (rule play_next_held[OF guild_itx2 h2])
  show ?thesis
    using p l' s c w1 w2 by (simp add: world_AB_def)
qed

subsection \<open>C4: loop-one mode\<close>

text \<open>
  Claim C4. Take a session in loop-one mode with the track \<open>a\<close> playing and the queue
  \<open>b # rest\<close>, its lock free, in an environment where \<open>a\<close> and \<open>b\<close> play.
  \<^item> A natural advance returns, releases the lock, leaves the session as it was (queue
    included) and hands \<open>a\<close> to the player once more: the trace grows by the call that
    plays \<open>a\<close>.
  \<^item> A run of natural completions does the same once per completion: the session is
    unchanged and the trace grows by as many calls that play \<open>a\<close> as tracks ended.
  \<^item> A forced advance returns with \<open>b\<close> playing and the queue \<open>rest\<close>, and the trace grows
    by the call that plays \<open>b\<close>; \<open>a\<close> is gone.
\<close>

theorem loop_one_replays:
  assumes "guild itx = Some gid" and "session gid w = Some st" and "lock st \<notin> locked w"
    and "loop st = LoopMode_ONE" and "now st = Some a" and "queue st = b # rest"
    and "plays e gid a" and "plays e gid b"
  shows "(\<exists>w'. play_next e t itx False w = Returned w' \<and> locked w' = locked w \<and>
                session gid w' = Some st \<and> calls w' = calls w @ [VcPlay gid a])
       \<and> (\<exists>w'. completions e ts itx w = Returned w' \<and> locked w' = locked w \<and>
                session gid w' = Some st \<and>
                calls w' = calls w @ replicate (length ts) (VcPlay gid a))
       \<and> (\<exists>w'. play_next e t itx True w = Returned w' \<and> locked w' = locked w \<and>
                session gid w' = Some (st\<lparr>queue := rest, now := Some b\<rparr>) \<and>
                calls w' = calls w @ [VcPlay gid b])"
proof (intro conjI)
  have oka: "play_error e a = None" and rpa: "reaches_player e gid a"
    using assms(7) by (simp_all add: plays_def)
  from play_next_one[OF assms(1) assms(2) assms(3) assms(4) assms(5) oka, of t] rpa
  show "\<exists>w'. play_next e t itx False w = Returned w' \<and> locked w' = locked w \<and>
          session gid w' = Some st \<and> calls w' = calls w @ [VcPlay gid a]"
    by auto
next
  have "queue st \<noteq> []"
    using assms(6) by simp
  from completions_one[OF assms(1) assms(2) assms(3) assms(4) assms(5) this assms(7), of ts]
  show "\<exists>w'. completions e ts itx w = Returned w' \<and> locked w' = locked w \<and>
          session gid w' = Some st \<and>
          calls w' = calls w @ replicate (length ts) (VcPlay gid a)"
    by blast
next
  have okb: "play_error e b = None" and rpb: "reaches_player e gid b"
    using assms(8) by (simp_all add: plays_def)
  from play_next_forced[OF assms(1) assms(2) assms(3) assms(6) okb, of t] rpb
  show "\<exists>w'. play_next e t itx True w = Returned w' \<and> locked w' = locked w \<and>
          session gid w' = Some (st\<lparr>queue := rest, now := Some b\<rparr>) \<and>
          calls w' = calls w @ [VcPlay gid b]"
    by auto
qed

text \<open>
  Witness for C4: A playing and B queued in guild 1. After three natural completions A
  plays, the queue is still B and the player has been given A three times; a forced
  advance plays B, leaves the queue empty and gives the player B.
\<close>

theorem loop_one_replays_witness:
  "(\<exists>w'. completions env_ok [1, 2, 3] itx1
            (one_session (new_GuildState\<lparr>queue := [track_B], loop := LoopMode_ONE,
                                           now := Some track_A\<rparr>)) = Returned w' \<and>
          map_option now (session 1 w') = Some (Some track_A) \<and>
          map_option queue (session 1 w') = Some [track_B] \<and>
          calls w' = [VcPlay 1 track_A, VcPlay 1 track_A, VcPlay 1 track_A])
   \<and> (\<exists>w'. play_next env_ok 4 itx1 True
            (one_session (new_GuildState\<lparr>queue := [track_B], loop := LoopMode_ONE,
                                           now := Some track_A\<rparr>)) = Returned w' \<and>
          map_option now (session 1 w') = Some (Some track_B) \<and>
          map_option queue (session 1 w') = Some [] \<and>
          calls w' = [VcPlay 1 track_B])"
proof -
  let ?st = "new_GuildState\<lparr>queue := [track_B], loop := LoopMode_ONE, now := Some track_A\<rparr>"
  have a: "session 1 (one_session ?st) = Some ?st"
    by simp
  have b: "lock ?st \<notin> locked (one_session ?st)"
    by simp
  have c: "loop ?st = LoopMode_ONE"
    by simp
  have n: "now ?st = Some track_A"
    by simp
  have q: "queue ?st = track_B # []"
    by simp
  have pa: "plays env_ok 1 track_A" and pb: "plays env_ok 1 track_B"
    by (simp_all add: plays_def reaches_player_def env_ok_def)
  from loop_one_replays[OF guild_itx1 a b c n q pa pb, of 4 "[1, 2, 3]"]
  show ?thesis
    by (auto simp add: numeral_3_eq_3)
qed

subsection \<open>C5: the idle reaper\<close>



subsection \<open>C6: the snapshot sink\<close>

text \<open>
  Claim C6, on the code. The state file holds status, title and volume for guild 1.
  \<open>pause\<close> hands the sink the payload that holds only the status: afterwards the entry of
  guild 1 is that payload, and title and volume are gone. The watcher's volume action
  likewise leaves only the volume. Removal deletes the entry.
\<close>

theorem sink_overwrites_entry:
  "published 1 world_published
     = Some [(''status'', JStr ''playing''), (''title'', JStr ''A''), (''volume'', JInt 100)]
   \<and> published 1 (world_of (pause env_streaming itx1 world_published))
     = Some [(''status'', JStr ''paused'')]
   \<and> published 1 (watcher_volume 1 (Some 50) world_published)
     = Some [(''volume'', JInt 50)]
   \<and> published 1 (update_state 1 None world_published) = None"
  by (simp add: pause_def reply_def env_streaming_def env_ok_def streaming_def
      watcher_volume_def Let_def)
    (simp add: published_def world_published_def load_json_state_def py_str_def)

subsection \<open>C7: setting the volume\<close>

text \<open>
  Claim C7. The watcher's volume action stores \<open>max 0 (min 200 pct) / 100\<close> as the
  volume of the session, for every integer \<open>pct\<close>; the stored value lies between 0 and
  2, and a request of 250 stores 2. The slash command, whose parameter type admits only
  0 to 200, stores the same value for every input of that range.
\<close>

theorem volume_set_clamps:
  "map_option volume (session gid (watcher_volume gid (Some pct) w))
     = Some (of_int (max 0 (min 200 pct)) / 100)
   \<and> (0::rat) \<le> of_int (max 0 (min 200 pct)) / 100
   \<and> of_int (max 0 (min 200 pct)) / 100 \<le> (2::rat)
   \<and> map_option volume (session gid (watcher_volume gid (Some 250) w)) = Some 2
   \<and> (0 \<le> pct \<and> pct \<le> 200 \<longrightarrow>
        map_option volume
          (session gid
             (world_of (volume_cmd \<lparr>guild = Some gid, user_id = u, channel_id = c\<rparr> pct w)))
          = Some (of_int (max 0 (min 200 pct)) / 100))"
  by (simp add: watcher_volume_def volume_cmd_def Let_def)

text \<open>
  Witness for C7: the watcher stores 0 for -5 and 2 for 250; the slash command stores 3/2
  for 150.
\<close>

theorem volume_set_clamps_witness:
  "map_option volume (session 1 (watcher_volume 1 (Some (- 5)) (one_session new_GuildState)))
     = Some 0
   \<and> map_option volume (session 1 (watcher_volume 1 (Some 250) (one_session new_GuildState)))
     = Some 2
   \<and> (0::int) \<le> 150 \<and> (150::int) \<le> 200
   \<and> map_option volume
        (session 1 (world_of (volume_cmd itx1 150 (one_session new_GuildState))))
     = Some (3 / 2)"
  using volume_set_clamps[of 1 "- 5" "one_session new_GuildState"]
    volume_set_clamps[of 1 150 "one_session new_GuildState" 7 "Some 5"]
  by (simp add: itx1_def)

subsection \<open>C8: remove and move\<close>

text \<open>
  Claim C8. Let the session of a guild have a queue of \<open>n\<close> tracks.
  \<^item> \<open>remove\<close> with an index below 1 or above \<open>n\<close> changes nothing in the world, and
    neither does the watcher's \<open>queue_remove\<close>.
  \<^item> With an index from 1 to \<open>n\<close>, both leave the queue as the old one without the track
    at that position.
  \<^item> \<open>move\<close> with either index below 1 or above \<open>n\<close> changes nothing in the world, and
    neither does the watcher's \<open>queue_move\<close>.
  \<^item> With both indices from 1 to \<open>n\<close>, both leave a queue that is as long as the old one,
    holds at position \<open>dst\<close> the track that was at position \<open>src\<close>, and without it is the
    old queue without that track: the other tracks keep their order.
  The watcher's actions return. The slash commands end in the \<open>TypeError\<close> of their
  misspelled reply, in the world described.
\<close>

theorem remove_move_indices:
  fixes index src dst :: int
  assumes "guild itx = Some gid" and "session gid w = Some st"
    and "n = int (length (queue st))"
  shows "(index < 1 \<or> n < index \<longrightarrow>
            remove e t itx index w = Raised TypeError w \<and>
            watcher_queue_remove e t gid (Some index) w = Returned w)
       \<and> (1 \<le> index \<and> index \<le> n \<longrightarrow>
            (\<exists>w'. remove e t itx index w = Raised TypeError w' \<and>
                  session gid w' = Some (st\<lparr>queue := delete_at (nat (index - 1)) (queue st)\<rparr>)) \<and>
            (\<exists>w'. watcher_queue_remove e t gid (Some index) w = Returned w' \<and>
                  session gid w' = Some (st\<lparr>queue := delete_at (nat (index - 1)) (queue st)\<rparr>)))
       \<and> (src < 1 \<or> dst < 1 \<or> n < src \<or> n < dst \<longrightarrow>
            move e t itx src dst w = Raised TypeError w \<and>
            watcher_queue_move e t gid (Some src) (Some dst) w = Returned w)
       \<and> (1 \<le> src \<and> src \<le> n \<and> 1 \<le> dst \<and> dst \<le> n \<longrightarrow>
            (\<exists>w' q'. move e t itx src dst w = Raised TypeError w' \<and>
                  session gid w' = Some (st\<lparr>queue := q'\<rparr>) \<and>
                  moved (nat (src - 1)) (nat (dst - 1)) (queue st) q') \<and>
            (\<exists>w' q'. watcher_queue_move e t gid (Some src) (Some dst) w = Returned w' \<and>
                  session gid w' = Some (st\<lparr>queue := q'\<rparr>) \<and>
                  moved (nat (src - 1)) (nat (dst - 1)) (queue st) q'))"
proof -
  note gd = assms(1)
  have g: "gs gid w = (st, w)"
    using assms(2) by (rule gs_existing)
  have len: "int (length (queue (fst (gs gid w)))) = n"
    using g assms(3) by simp
  show ?thesis
  proof (intro conjI impI)
    assume "index < 1 \<or> n < index"
    then have bad: "index < 1 \<or> int (length (queue (fst (gs gid w)))) < index"
      using len by simp
    from remove_invalid(1)[OF gd bad, of e t] g
    show "remove e t itx index w = Raised TypeError w"
      by simp
    from remove_invalid(2)[OF gd bad, of e t] g
    show "watcher_queue_remove e t gid (Some index) w = Returned w"
      by simp
  next
    assume ok: "1 \<le> index \<and> index \<le> n"
    then have lo: "1 \<le> index" and hi: "index \<le> int (length (queue (fst (gs gid w))))"
      using len by simp_all
    from remove_valid(1)[OF gd lo hi, of e t] g
    show "\<exists>w'. remove e t itx index w = Raised TypeError w' \<and>
            session gid w' = Some (st\<lparr>queue := delete_at (nat (index - 1)) (queue st)\<rparr>)"
      by simp
    from remove_valid(2)[OF gd lo hi, of e t] g
    show "\<exists>w'. watcher_queue_remove e t gid (Some index) w = Returned w' \<and>
            session gid w' = Some (st\<lparr>queue := delete_at (nat (index - 1)) (queue st)\<rparr>)"
      by simp
  next
    assume "src < 1 \<or> dst < 1 \<or> n < src \<or> n < dst"
    then have bad: "src < 1 \<or> dst < 1 \<or> int (length (queue (fst (gs gid w)))) < src
           \<or> int (length (queue (fst (gs gid w)))) < dst"
      using len by simp
    from move_invalid(1)[OF gd bad, of e t] g
    show "move e t itx src dst w = Raised TypeError w"
      by simp
    from move_invalid(2)[OF gd bad, of e t] g
    show "watcher_queue_move e t gid (Some src) (Some dst) w = Returned w"
      by simp
  next
    assume ok: "1 \<le> src \<and> src \<le> n \<and> 1 \<le> dst \<and> dst \<le> n"
    then have a: "1 \<le> src" and b: "src \<le> int (length (queue (fst (gs gid w))))"
      and c: "1 \<le> dst" and d: "dst \<le> int (length (queue (fst (gs gid w))))"
      using len by simp_all
    have i: "nat (src - 1) < length (queue st)" and j: "nat (dst - 1) < length (queue st)"
      using ok assms(3) by auto
    note m = moved_insert_delete[OF i j]
    from move_valid(1)[OF gd a b c d, of e t] g m
    show "\<exists>w' q'. move e t itx src dst w = Raised TypeError w' \<and>
            session gid w' = Some (st\<lparr>queue := q'\<rparr>) \<and>
            moved (nat (src - 1)) (nat (dst - 1)) (queue st) q'"
      by auto
    from move_valid(2)[OF gd a b c d, of e t] g m
    show "\<exists>w' q'. watcher_queue_move e t gid (Some src) (Some dst) w = Returned w' \<and>
            session gid w' = Some (st\<lparr>queue := q'\<rparr>) \<and>
            moved (nat (src - 1)) (nat (dst - 1)) (queue st) q'"
      by auto
  qed
qed

text \<open>
  Witness for C8: the queue A, B, C of guild 1. Index 4 changes nothing and index 2 leaves
  A, C; moving from 0 changes nothing and moving position 1 to position 3 gives B, C, A.
\<close>

theorem remove_move_indices_witness:
  "remove env_ok 0 itx1 4 world_queue_ABC = Raised TypeError world_queue_ABC
   \<and> (\<exists>w'. remove env_ok 0 itx1 2 world_queue_ABC = Raised TypeError w' \<and>
           map_option queue (session 1 w') = Some [track_A, track_C])
   \<and> watcher_queue_move env_ok 0 1 (Some 0) (Some 2) world_queue_ABC = Returned world_queue_ABC
   \<and> (\<exists>w'. watcher_queue_move env_ok 0 1 (Some 1) (Some 3) world_queue_ABC = Returned w' \<and>
           map_option queue (session 1 w') = Some [track_B, track_C, track_A])"
proof -
  let ?st = "new_GuildState\<lparr>queue := [track_A, track_B, track_C]\<rparr>"
  have s: "session 1 world_queue_ABC = Some ?st"
    by (simp add: world_queue_ABC_def)
  have n: "3 = int (length (queue ?st))"
    by simp
  note inst = remove_move_indices[OF guild_itx1 s n]
  have one: "remove env_ok 0 itx1 4 world_queue_ABC = Raised TypeError world_queue_ABC"
    using inst[of 4 env_ok 0 1 1] by simp
  have two: "\<exists>w'. remove env_ok 0 itx1 2 world_queue_ABC = Raised TypeError w' \<and>
           map_option queue (session 1 w') = Some [track_A, track_C]"
    using inst[of 2 env_ok 0 1 1] by (auto simp add: delete_at_def)
  have three: "watcher_queue_move env_ok 0 1 (Some 0) (Some 2) world_queue_ABC
               = Returned world_queue_ABC"
    using inst[of 1 env_ok 0 0 2] by simp
  from inst[of 1 env_ok 0 1 3]
  obtain w' q' where r: "watcher_queue_move env_ok 0 1 (Some 1) (Some 3) world_queue_ABC
                        = Returned w'"
    and s': "session 1 w' = Some (?st\<lparr>queue := q'\<rparr>)"
    and m: "moved (nat (1 - 1)) (nat (3 - 1)) (queue ?st) q'"
    by auto
  have "q' = insert_at (nat (3 - 1)) (queue ?st ! nat (1 - 1)) (delete_at (nat (1 - 1)) (queue ?st))"
    using m by (rule moved_determines) simp
  then have "q' = [track_B, track_C, track_A]"
    by (simp add: insert_at_def delete_at_def)
  with r s' have four: "\<exists>w'. watcher_queue_move env_ok 0 1 (Some 1) (Some 3) world_queue_ABC
                           = Returned w' \<and>
           map_option queue (session 1 w') = Some [track_B, track_C, track_A]"
    by simp
  from one two three four show ?thesis
    by blast
qed

subsection \<open>C9: a search that finds nothing\<close>

text \<open>
  Claim C9, on the code. The search returns the empty list. With a silent voice client
  \<open>play\<close> first advances the engine, which stamps the session idle at the current time,
  and then raises \<open>AttributeError\<close> on \<open>first.title\<close>; the text channel of the session has
  been set before. With a voice client that is playing it raises the same exception.
\<close>

theorem play_nothing_found_raises:
  "raised (play env_ok 5 itx1 ''nothing'' (one_session new_GuildState)) = Some AttributeError
   \<and> map_option idle_since
        (session 1 (world_of (play env_ok 5 itx1 ''nothing'' (one_session new_GuildState))))
       = Some 5
   \<and> map_option last_text_channel_id
        (session 1 (world_of (play env_ok 5 itx1 ''nothing'' (one_session new_GuildState))))
       = Some (Some 5)
   \<and> raised (play env_streaming 5 itx1 ''nothing'' (one_session new_GuildState))
       = Some AttributeError"
proof -
  let ?st = "new_GuildState\<lparr>last_text_channel_id := Some 5\<rparr>"
  let ?w = "put 1 (?st\<lparr>queue := queue ?st @ []\<rparr>) (put 1 ?st (one_session new_GuildState))"
  have s: "session 1 ?w = Some ?st"
    by simp
  have l: "lock ?st \<notin> locked ?w"
    by simp
  have q: "queue ?st = []"
    by (simp add: new_GuildState_def)
  have n: "now ?st = None \<or> loop ?st \<noteq> LoopMode_ONE \<or> False"
    by (simp add: new_GuildState_def)
  from play_next_idle[OF guild_itx1 s l q n, of env_ok 5]
  obtain w' where p: "play_next env_ok 5 itx1 False ?w = Returned w'"
    and s': "session 1 w' = Some (?st\<lparr>now := None, idle_since := 5\<rparr>)"
    by blast
  have c: "connected env_ok 1 = Some silent" "search env_ok ''nothing'' = Inr []"
    by (simp_all add: env_ok_def)
  have one: "play env_ok 5 itx1 ''nothing'' (one_session new_GuildState)
             = Raised AttributeError w'"
    using p c by (simp add: play_def Let_def gs_existing silent_def itx1_def)
  have c2: "connected env_streaming 1 = Some streaming"
    "search env_streaming ''nothing'' = Inr []"
    by (simp_all add: env_streaming_def env_ok_def)
  have two: "raised (play env_streaming 5 itx1 ''nothing'' (one_session new_GuildState))
             = Some AttributeError"
    using c2 by (simp add: play_def Let_def streaming_def)
  show ?thesis
    using one s' two by simp
qed

subsection \<open>C10: what clear leaves alone\<close>

text \<open>
  Claim C10. \<open>clear\<close> empties the queue and resets loop mode, filter, now-playing,
  autoplay and the radio query; volume, last text channel, lock and idle stamp are what
  they were. \<open>stop\<close> leaves the session of its guild cleared in this sense, and so does
  \<open>leave\<close> when the guild has a voice client.
\<close>

theorem clear_keeps_volume:
  "volume (clear st) = volume st \<and> last_text_channel_id (clear st) = last_text_channel_id st
   \<and> lock (clear st) = lock st \<and> idle_since (clear st) = idle_since st
   \<and> queue (clear st) = [] \<and> loop (clear st) = LoopMode_OFF \<and> filter_id (clear st) = None
   \<and> now (clear st) = None \<and> autoplay (clear st) = False \<and> radio_query (clear st) = None
   \<and> session gid (world_of (stop e \<lparr>guild = Some gid, user_id = u, channel_id = c\<rparr> w))
       = Some (clear (fst (gs gid w)))
   \<and> session gid (world_of (leave e \<lparr>guild = Some gid, user_id = u, channel_id = c\<rparr> w))
       = (case voice_client e gid of None \<Rightarrow> session gid w
          | Some vc \<Rightarrow> Some (clear (fst (gs gid w))))"
  by (simp add: clear_def stop_def leave_def reply_def Let_def split: option.split)

end
